theory Spec2Isabelle
  imports Main "HOL-Library.Sublist" "HOL-Library.List_Lexorder" "HOL-Library.Char_ord"
begin

section \<open>Data model\<close>

text \<open>
  The code controller of the backend (\<^verbatim>\<open>src/controllers/codeController.ts\<close>) works on three
  relational tables (\<^verbatim>\<open>snapshots\<close>, \<^verbatim>\<open>snapshot_files\<close>, \<^verbatim>\<open>branches\<close>) and on one bucket of the
  blob store.  A table is the list of its rows in insertion order; the bucket is a map from
  storage keys to byte strings.  Identifiers are the text of the UUIDs the database hands
  out; a byte string is a list of 8-bit characters.
\<close>

type_synonym buffer = string

text \<open>
  One element of the arrays the controller passes around,
  \<^verbatim>\<open>Array<{ path: string; hash: string; size: number; mode: number }>\<close>
  (the field \<^verbatim>\<open>size\<close> is called \<open>fsize\<close> here).
\<close>

record file_entry =
  path :: string
  hash :: string
  fsize :: nat
  mode :: nat

text \<open>A row of \<^verbatim>\<open>snapshots\<close>, with the columns of the controller's \<^verbatim>\<open>INSERT\<close>.\<close>

record snapshot =
  s_id :: string
  s_project_id :: string
  s_user_id :: string
  s_title :: string
  s_description :: "string option"
  s_timestamp :: int
  s_file_count :: nat
  s_external_id :: "string option"

text \<open>
  A row of \<^verbatim>\<open>snapshot_files\<close>: the owning snapshot and the four columns the controller reads
  and writes (the row's own generated id is never read and is left out).
\<close>

record snapshot_files_row =
  sf_snapshot_id :: string
  sf_file :: file_entry

text \<open>A row of \<^verbatim>\<open>branches\<close>: the columns the controller reads and updates.\<close>

record branch =
  b_project_id :: string
  b_name :: string
  b_head_snapshot_id :: "string option"
  b_updated_at :: int

record database =
  snapshots :: "snapshot list"
  snapshot_files :: "snapshot_files_row list"
  branches :: "branch list"

record world =
  db :: database
  storage :: "string \<rightharpoonup> buffer"

text \<open>
  The library functions the controller calls but does not define:
  \<^verbatim>\<open>Buffer.from(s, 'base64')\<close>, \<^verbatim>\<open>buf.toString('base64')\<close>,
  \<^verbatim>\<open>crypto.createHash('sha256').update(b).digest('hex')\<close>, \<^verbatim>\<open>path.join(a, b)\<close> and
  \<^verbatim>\<open>mime.lookup(p)\<close> (\<open>None\<close> where it answers \<^verbatim>\<open>false\<close>).  They are parameters of the
  model: every theorem below holds for any choice of them.
\<close>

record lib =
  base64_decode :: "string \<Rightarrow> buffer"
  base64_encode :: "buffer \<Rightarrow> string"
  sha256_hex :: "buffer \<Rightarrow> string"
  path_join :: "string \<Rightarrow> string \<Rightarrow> string"
  mime_lookup :: "string \<Rightarrow> string option"

text \<open>
  What the surroundings decide during one request: the id the database generates for the new
  \<^verbatim>\<open>snapshots\<close> row (\<^verbatim>\<open>DEFAULT gen_random_uuid()\<close>), the two readings of \<^verbatim>\<open>Date.now()\<close>
  (in \<^verbatim>\<open>createNewSnapshot\<close> and in \<^verbatim>\<open>updateBranchHead\<close>), whether a \<^verbatim>\<open>SELECT\<close> of the request
  raises, whether an \<^verbatim>\<open>INSERT\<close>, \<^verbatim>\<open>UPDATE\<close> or the \<^verbatim>\<open>COMMIT\<close> raises (with the message of the
  exception), and what the blob store answers to an upload and to a download.
\<close>

record env =
  gen_random_uuid :: string
  now_snapshot :: int
  now_branch :: int
  select_error :: "string option"
  write_error :: "string option"
  upload_error :: "string option"
  download_error :: "string option"

text \<open>The JSON bodies of the responses, and a response: HTTP status and body.\<close>

datatype tree_entry = FileEntry string nat | DirEntry string

record blob_json =
  blob_path :: string
  blob_hash :: string
  blob_size :: nat
  blob_mode :: nat
  blob_content :: "string option"
  blob_mime :: string
  blob_message :: "string option"

datatype body =
    ErrorBody string
  | BlobErrorBody string
  | FileCreated string file_entry
  | FolderCreated string string
  | Deleted string string
  | TreeBody "tree_entry list"
  | BlobBody blob_json

datatype response = Response (status: nat) (body: body)

section \<open>Helpers of the controller\<close>

text \<open>JavaScript truthiness of a request field that is a string or \<^verbatim>\<open>undefined\<close>.\<close>

definition truthy :: "string option \<Rightarrow> bool" where
  "truthy v = (case v of None \<Rightarrow> False | Some s \<Rightarrow> s \<noteq> [])"

text \<open>
  Modelled from the spec: the view \<^verbatim>\<open>latest_project_snapshot\<close>, which the controller
  selects from and \<^verbatim>\<open>db/schema.sql\<close> does not declare.  The spec: "the most recent snapshot
  for the project ordered by timestamp descending".  The sort is stable, so among snapshots
  of one timestamp the first inserted is taken.
\<close>

definition latest_project_snapshot :: "database \<Rightarrow> string \<Rightarrow> snapshot option" where
  "latest_project_snapshot d projectId =
     (case sort_key (\<lambda>s. - s_timestamp s) (filter (\<lambda>s. s_project_id s = projectId) (snapshots d)) of
        [] \<Rightarrow> None
      | s # _ \<Rightarrow> Some s)"

text \<open>
  \<^verbatim>\<open>resolveSnapshotId(client, projectId, branch?)\<close>.  An id read from the database is a UUID,
  never the empty string, so the test \<^verbatim>\<open>br.rows[0].head_snapshot_id\<close> is the test for
  \<^verbatim>\<open>NULL\<close>; \<^verbatim>\<open>LIMIT 1\<close> takes the first matching row.
\<close>

definition resolveSnapshotId :: "database \<Rightarrow> string \<Rightarrow> string option \<Rightarrow> string option" where
  "resolveSnapshotId d projectId branch =
     (let latest = map_option s_id (latest_project_snapshot d projectId) in
      case branch of
        None \<Rightarrow> latest
      | Some b \<Rightarrow>
          if b = [] then latest
          else (case find (\<lambda>r. b_project_id r = projectId \<and> b_name r = b) (branches d) of
                  None \<Rightarrow> latest
                | Some r \<Rightarrow> (case b_head_snapshot_id r of None \<Rightarrow> latest | Some h \<Rightarrow> Some h)))"

definition getFilesInSnapshot :: "database \<Rightarrow> string \<Rightarrow> file_entry list" where
  "getFilesInSnapshot d snapshotId =
     map sf_file (filter (\<lambda>r. sf_snapshot_id r = snapshotId) (snapshot_files d))"

text \<open>
  \<^verbatim>\<open>createNewSnapshot\<close>: one row into \<^verbatim>\<open>snapshots\<close>, then one row into \<^verbatim>\<open>snapshot_files\<close> per
  file.  It raises (\<open>Inl\<close> the message) when the surroundings say so, and when the generated
  id is already a primary key of \<^verbatim>\<open>snapshots\<close>.  A failure of the \<^verbatim>\<open>UPDATE\<close> or of the
  \<^verbatim>\<open>COMMIT\<close> that follow ends in the same \<^verbatim>\<open>catch\<close> block with the same effect, and is
  counted here.
\<close>

definition createNewSnapshot ::
  "env \<Rightarrow> database \<Rightarrow> string \<Rightarrow> string \<Rightarrow> file_entry list \<Rightarrow> string \<Rightarrow> string + (string \<times> database)" where
  "createNewSnapshot e d projectId userId files title =
     (let now = now_snapshot e;
          fileCount = length files;
          newSnapshotId = gen_random_uuid e
      in case write_error e of
           Some m \<Rightarrow> Inl m
         | None \<Rightarrow>
             if newSnapshotId \<in> set (map s_id (snapshots d))
             then Inl ''duplicate key value violates unique constraint snapshots_pkey''
             else Inr (newSnapshotId,
                    d\<lparr>snapshots := snapshots d @
                         [\<lparr>s_id = newSnapshotId, s_project_id = projectId, s_user_id = userId,
                           s_title = title, s_description = None, s_timestamp = now,
                           s_file_count = fileCount, s_external_id = None\<rparr>],
                       snapshot_files := snapshot_files d @
                         map (\<lambda>f. \<lparr>sf_snapshot_id = newSnapshotId, sf_file = f\<rparr>) files\<rparr>))"

definition updateBranchHead :: "env \<Rightarrow> database \<Rightarrow> string \<Rightarrow> string \<Rightarrow> string \<Rightarrow> database" where
  "updateBranchHead e d projectId branch newSnapshotId =
     d\<lparr>branches :=
         map (\<lambda>r. if b_project_id r = projectId \<and> b_name r = branch
                   then r\<lparr>b_head_snapshot_id := Some newSnapshotId, b_updated_at := now_branch e\<rparr>
                   else r)
             (branches d)\<rparr>"

text \<open>
  The blob store: \<^verbatim>\<open>upload(key, bytes, {upsert: true})\<close> answers an error and stores nothing,
  or stores the bytes under the key; \<^verbatim>\<open>download(key)\<close> answers an error (also when nothing is
  stored under the key) or the bytes.
\<close>

definition upload :: "env \<Rightarrow> (string \<rightharpoonup> buffer) \<Rightarrow> string \<Rightarrow> buffer \<Rightarrow> string + (string \<rightharpoonup> buffer)" where
  "upload e store key bytes =
     (case upload_error e of Some m \<Rightarrow> Inl m | None \<Rightarrow> Inr (store(key \<mapsto> bytes)))"

definition download :: "env \<Rightarrow> (string \<rightharpoonup> buffer) \<Rightarrow> string \<Rightarrow> string + buffer" where
  "download e store key =
     (case download_error e of
        Some m \<Rightarrow> Inl m
      | None \<Rightarrow> (case store key of None \<Rightarrow> Inl ''Object not found'' | Some bytes \<Rightarrow> Inr bytes))"

text \<open>\<^verbatim>\<open>res.status(500).json({ error: e.message || 'Internal server error' })\<close>.\<close>

definition server_error :: "string \<Rightarrow> response" where
  "server_error m = Response 500 (ErrorBody (if m = [] then ''Internal server error'' else m))"

section \<open>The mutating endpoints\<close>

text \<open>
  Each handler takes the state of the world and gives the response and the state after it.
  The relational statements run between \<^verbatim>\<open>BEGIN\<close> and \<^verbatim>\<open>COMMIT\<close>: where the handler raises or
  rolls back, the database of the result is the database it started from, while an upload
  already made stays in the blob store.
\<close>

definition createFile ::
  "lib \<Rightarrow> env \<Rightarrow> world \<Rightarrow> string \<Rightarrow> string option \<Rightarrow> string option \<Rightarrow> string option \<Rightarrow> string option
     \<Rightarrow> response \<times> world" where
  "createFile L e w projectId branch filePath content userId =
     (if \<not> truthy branch \<or> \<not> truthy filePath \<or> content = None \<or> \<not> truthy userId
      then (Response 400 (ErrorBody ''Branch, path, content, and userId are required.''), w)
      else
        case select_error e of
          Some m \<Rightarrow> (server_error m, w)
        | None \<Rightarrow>
            let currentSnapshotId = resolveSnapshotId (db w) projectId branch;
                existingFiles = (case currentSnapshotId of
                                   None \<Rightarrow> []
                                 | Some s \<Rightarrow> getFilesInSnapshot (db w) s);
                contentBuffer = base64_decode L (the content);
                fileHash = sha256_hex L contentBuffer;
                fileSize = length contentBuffer;
                fileMode = 644;
                filteredFiles = filter (\<lambda>f. path f \<noteq> the filePath) existingFiles;
                newFile = \<lparr>path = the filePath, hash = fileHash, fsize = fileSize, mode = fileMode\<rparr>;
                allFiles = filteredFiles @ [newFile];
                filePathInStorage = projectId @ ''/'' @ hash newFile
            in case upload e (storage w) filePathInStorage contentBuffer of
                 Inl m \<Rightarrow>
                   (server_error (''Failed to upload file content for '' @ the filePath @
                                  '' to Supabase: '' @ m), w)
               | Inr store \<Rightarrow>
                   (case createNewSnapshot e (db w) projectId (the userId) allFiles
                           (''Create file: '' @ the filePath) of
                      Inl m \<Rightarrow> (server_error m, w\<lparr>storage := store\<rparr>)
                    | Inr (newSnapshotId, d) \<Rightarrow>
                        (Response 201 (FileCreated newSnapshotId newFile),
                         \<lparr>db = updateBranchHead e d projectId (the branch) newSnapshotId,
                          storage = store\<rparr>)))"

definition createFolder ::
  "lib \<Rightarrow> env \<Rightarrow> world \<Rightarrow> string \<Rightarrow> string option \<Rightarrow> string option \<Rightarrow> string option
     \<Rightarrow> response \<times> world" where
  "createFolder L e w projectId branch folderPath userId =
     (if \<not> truthy branch \<or> \<not> truthy folderPath \<or> \<not> truthy userId
      then (Response 400 (ErrorBody ''Branch, path, and userId are required.''), w)
      else
        case select_error e of
          Some m \<Rightarrow> (server_error m, w)
        | None \<Rightarrow>
            let currentSnapshotId = resolveSnapshotId (db w) projectId branch;
                existingFiles = (case currentSnapshotId of
                                   None \<Rightarrow> []
                                 | Some s \<Rightarrow> getFilesInSnapshot (db w) s);
                gitkeepPath = path_join L (the folderPath) ''.gitkeep'';
                gitkeepContent = [];
                gitkeepHash = sha256_hex L gitkeepContent;
                gitkeepSize = 0;
                gitkeepMode = 644;
                filteredFiles = filter (\<lambda>f. path f \<noteq> gitkeepPath) existingFiles;
                newGitkeepFile = \<lparr>path = gitkeepPath, hash = gitkeepHash, fsize = gitkeepSize,
                                  mode = gitkeepMode\<rparr>;
                allFiles = filteredFiles @ [newGitkeepFile];
                filePathInStorage = projectId @ ''/'' @ hash newGitkeepFile;
                store = (case upload e (storage w) filePathInStorage gitkeepContent of
                           Inl m \<Rightarrow> storage w
                         | Inr store' \<Rightarrow> store')
            in case createNewSnapshot e (db w) projectId (the userId) allFiles
                      (''Create folder: '' @ the folderPath) of
                 Inl m \<Rightarrow> (server_error m, w\<lparr>storage := store\<rparr>)
               | Inr (newSnapshotId, d) \<Rightarrow>
                   (Response 201 (FolderCreated newSnapshotId (the folderPath)),
                    \<lparr>db = updateBranchHead e d projectId (the branch) newSnapshotId,
                     storage = store\<rparr>))"

definition deleteFile ::
  "env \<Rightarrow> world \<Rightarrow> string \<Rightarrow> string option \<Rightarrow> string option \<Rightarrow> string option \<Rightarrow> response \<times> world" where
  "deleteFile e w projectId branch filePath userId =
     (if \<not> truthy branch \<or> \<not> truthy filePath \<or> \<not> truthy userId
      then (Response 400 (ErrorBody ''Branch, path, and userId are required.''), w)
      else
        case select_error e of
          Some m \<Rightarrow> (Response 500 (ErrorBody ''Internal server error''), w)
        | None \<Rightarrow>
            (case resolveSnapshotId (db w) projectId branch of
               None \<Rightarrow> (Response 404 (ErrorBody ''Branch or project has no snapshots.''), w)
             | Some currentSnapshotId \<Rightarrow>
                 let existingFiles = getFilesInSnapshot (db w) currentSnapshotId;
                     updatedFiles = filter (\<lambda>f. path f \<noteq> the filePath) existingFiles
                 in if length existingFiles = length updatedFiles
                    then (Response 404 (ErrorBody (''File not found at path: '' @ the filePath)), w)
                    else
                      case createNewSnapshot e (db w) projectId (the userId) updatedFiles
                             (''Delete file: '' @ the filePath) of
                        Inl m \<Rightarrow> (Response 500 (ErrorBody ''Internal server error''), w)
                      | Inr (newSnapshotId, d) \<Rightarrow>
                          (Response 200 (Deleted newSnapshotId (the filePath)),
                           w\<lparr>db := updateBranchHead e d projectId (the branch) newSnapshotId\<rparr>)))"

text \<open>\<^verbatim>\<open>s.endsWith('/')\<close>.\<close>

definition endsWith_slash :: "string \<Rightarrow> bool" where
  "endsWith_slash s = (s \<noteq> [] \<and> last s = CHR ''/'')"

definition deleteFolder ::
  "env \<Rightarrow> world \<Rightarrow> string \<Rightarrow> string option \<Rightarrow> string option \<Rightarrow> string option \<Rightarrow> response \<times> world" where
  "deleteFolder e w projectId branch folderPath userId =
     (if \<not> truthy branch \<or> \<not> truthy folderPath \<or> \<not> truthy userId
      then (Response 400 (ErrorBody ''Branch, path, and userId are required.''), w)
      else
        case select_error e of
          Some m \<Rightarrow> (Response 500 (ErrorBody ''Internal server error''), w)
        | None \<Rightarrow>
            (case resolveSnapshotId (db w) projectId branch of
               None \<Rightarrow> (Response 404 (ErrorBody ''Branch or project has no snapshots.''), w)
             | Some currentSnapshotId \<Rightarrow>
                 let existingFiles = getFilesInSnapshot (db w) currentSnapshotId;
                     folderPrefix = (if endsWith_slash (the folderPath) then the folderPath
                                     else the folderPath @ ''/'');
                     updatedFiles = filter (\<lambda>f. \<not> prefix folderPrefix (path f)) existingFiles
                 in if length existingFiles = length updatedFiles
                    then (Response 404 (ErrorBody (''Folder not found or already empty at path: '' @
                                                   the folderPath)), w)
                    else
                      case createNewSnapshot e (db w) projectId (the userId) updatedFiles
                             (''Delete folder: '' @ the folderPath) of
                        Inl m \<Rightarrow> (Response 500 (ErrorBody ''Internal server error''), w)
                      | Inr (newSnapshotId, d) \<Rightarrow>
                          (Response 200 (Deleted newSnapshotId (the folderPath)),
                           w\<lparr>db := updateBranchHead e d projectId (the branch) newSnapshotId\<rparr>)))"

section \<open>The reading endpoints\<close>

text \<open>
  \<^verbatim>\<open>getBlob\<close>: the row of the resolved snapshot at exactly the path, then its content from the
  blob store under the key \<^verbatim>\<open>${projectId}/${snapshotId}/${file.hash}\<close>.  A failed download
  leaves \<^verbatim>\<open>content\<close> null and sets \<^verbatim>\<open>message\<close>.  The query parameter \<^verbatim>\<open>path\<close> defaults to the
  empty string.
\<close>

definition getBlob ::
  "lib \<Rightarrow> env \<Rightarrow> world \<Rightarrow> string \<Rightarrow> string option \<Rightarrow> string option \<Rightarrow> response" where
  "getBlob L e w projectId branch path_param =
     (let filePath = (case path_param of None \<Rightarrow> [] | Some p \<Rightarrow> p) in
      case select_error e of
        Some m \<Rightarrow> Response 500 (ErrorBody ''Internal server error'')
      | None \<Rightarrow>
          (case resolveSnapshotId (db w) projectId branch of
             None \<Rightarrow> Response 404 (BlobErrorBody ''No snapshot for this branch/project'')
           | Some snapshotId \<Rightarrow>
               (case find (\<lambda>r. sf_snapshot_id r = snapshotId \<and> path (sf_file r) = filePath)
                       (snapshot_files (db w)) of
                  None \<Rightarrow> Response 404 (BlobErrorBody ''File not found'')
                | Some row \<Rightarrow>
                    let file = sf_file row;
                        filePathInStorage = projectId @ ''/'' @ snapshotId @ ''/'' @ hash file;
                        fileMime = (case mime_lookup L filePath of
                                      None \<Rightarrow> ''application/octet-stream''
                                    | Some m \<Rightarrow> m);
                        downloaded = download e (storage w) filePathInStorage;
                        fileContent = (case downloaded of
                                         Inl m \<Rightarrow> None
                                       | Inr bytes \<Rightarrow> Some (base64_encode L bytes));
                        message = (case downloaded of
                                     Inl m \<Rightarrow> Some (''Could not download file content: '' @ m)
                                   | Inr bytes \<Rightarrow> None)
                    in Response 200 (BlobBody
                         \<lparr>blob_path = path file, blob_hash = hash file, blob_size = fsize file,
                          blob_mode = mode file, blob_content = fileContent, blob_mime = fileMime,
                          blob_message = message\<rparr>))))"

text \<open>
  The operator \<^verbatim>\<open>LIKE\<close> of PostgreSQL, \<open>like s p\<close> for \<^verbatim>\<open>s LIKE p\<close>: in the pattern \<^verbatim>\<open>%\<close> stands
  for any run of characters, \<^verbatim>\<open>_\<close> for any one character, and the backslash (the default
  escape character, \<open>CHR 0x5C\<close>) makes the character after it stand for itself.  A pattern
  that ends in a lone backslash matches nothing here (PostgreSQL raises when the match gets
  there; the patterns of the controller end in \<^verbatim>\<open>%\<close>).
\<close>

fun like :: "string \<Rightarrow> string \<Rightarrow> bool" where
  "like [] [] = True"
| "like (c # t) [] = False"
| "like [] (p # ps) = (p = CHR ''%'' \<and> like [] ps)"
| "like (c # t) (p # ps) =
     (if p = CHR ''%'' then like (c # t) ps \<or> like t (p # ps)
      else if p = CHR ''_'' then like t ps
      else if p = CHR 0x5C then (case ps of [] \<Rightarrow> False | q # qs \<Rightarrow> c = q \<and> like t qs)
      else c = p \<and> like t ps)"

text \<open>\<^verbatim>\<open>s.replace(/^\/+|\/+$/g, '')\<close>: the slashes at both ends go.\<close>

definition strip_slashes :: "string \<Rightarrow> string" where
  "strip_slashes s =
     rev (dropWhile (\<lambda>c. c = CHR ''/'') (rev (dropWhile (\<lambda>c. c = CHR ''/'') s)))"

text \<open>The variable \<^verbatim>\<open>likePrefix\<close> of \<^verbatim>\<open>getTree\<close>, from the query parameter \<^verbatim>\<open>path\<close>.\<close>

definition likePrefix_of :: "string \<Rightarrow> string" where
  "likePrefix_of path_param =
     (let basePath = strip_slashes path_param in
      if basePath \<noteq> [] then basePath @ ''/'' else [])"

text \<open>
  The query of \<^verbatim>\<open>getTree\<close>:
  \<^verbatim>\<open>SELECT ... FROM snapshot_files WHERE snapshot_id = $1 AND path LIKE $2 || '%' ORDER BY path ASC\<close>,
  the order being that of the character codes.
\<close>

definition tree_rows :: "database \<Rightarrow> string \<Rightarrow> string \<Rightarrow> file_entry list" where
  "tree_rows d snapshotId likePrefix =
     sort_key path
       (map sf_file
          (filter (\<lambda>r. sf_snapshot_id r = snapshotId \<and> like (path (sf_file r)) (likePrefix @ ''%''))
             (snapshot_files d)))"

text \<open>The loop of \<^verbatim>\<open>getTree\<close> over the rows: the immediate children, each name once.\<close>

fun tree_entries :: "nat \<Rightarrow> file_entry list \<Rightarrow> string list \<Rightarrow> tree_entry list" where
  "tree_entries n [] seen = []"
| "tree_entries n (row # rows) seen =
     (let rel = drop n (path row) in
      if CHR ''/'' \<notin> set rel
      then (if rel \<in> set seen then tree_entries n rows seen
            else FileEntry rel (fsize row) # tree_entries n rows (rel # seen))
      else (let dir = takeWhile (\<lambda>c. c \<noteq> CHR ''/'') rel in
            if dir \<in> set seen then tree_entries n rows seen
            else DirEntry dir # tree_entries n rows (dir # seen)))"

definition getTree :: "env \<Rightarrow> world \<Rightarrow> string \<Rightarrow> string option \<Rightarrow> string option \<Rightarrow> response" where
  "getTree e w projectId branch path_param =
     (case select_error e of
        Some m \<Rightarrow> Response 500 (ErrorBody ''Internal server error'')
      | None \<Rightarrow>
          (case resolveSnapshotId (db w) projectId branch of
             None \<Rightarrow> Response 200 (TreeBody [])
           | Some snapshotId \<Rightarrow>
               let likePrefix = likePrefix_of (case path_param of None \<Rightarrow> [] | Some p \<Rightarrow> p);
                   rows = tree_rows (db w) snapshotId likePrefix
               in Response 200 (TreeBody (tree_entries (length likePrefix) rows []))))"

section \<open>Notions used in the statements\<close>

text \<open>
  The file set a mutation starts from (the variable \<^verbatim>\<open>existingFiles\<close>): the files of the
  snapshot the branch resolves to, none if it resolves to no snapshot.
\<close>

definition current_files :: "database \<Rightarrow> string \<Rightarrow> string option \<Rightarrow> file_entry list" where
  "current_files d projectId branch =
     (case resolveSnapshotId d projectId branch of
        None \<Rightarrow> []
      | Some s \<Rightarrow> getFilesInSnapshot d s)"

text \<open>The head pointer of the branch: of the first row for the project and the name.\<close>

definition branch_head :: "database \<Rightarrow> string \<Rightarrow> string \<Rightarrow> string option" where
  "branch_head d projectId b =
     (case find (\<lambda>r. b_project_id r = projectId \<and> b_name r = b) (branches d) of
        None \<Rightarrow> None
      | Some r \<Rightarrow> b_head_snapshot_id r)"

definition branch_key :: "branch \<Rightarrow> string \<times> string" where
  "branch_key r = (b_project_id r, b_name r)"

text \<open>
  What a committed mutation on the branch \<open>b\<close> of a project writes: the second database is the
  first with one row more in \<^verbatim>\<open>snapshots\<close> and file rows of that snapshot more in
  \<^verbatim>\<open>snapshot_files\<close>; a row of \<^verbatim>\<open>branches\<close> for the project and the name \<open>b\<close> has its head
  pointer set to the new snapshot (and its update time set), and every other row of
  \<^verbatim>\<open>branches\<close> is as it was.
\<close>

definition writes_one_snapshot :: "string \<Rightarrow> string \<Rightarrow> database \<Rightarrow> database \<Rightarrow> bool" where
  "writes_one_snapshot projectId b d d' =
     (prefix (snapshots d) (snapshots d') \<and>
      length (snapshots d') = Suc (length (snapshots d)) \<and>
      prefix (snapshot_files d) (snapshot_files d') \<and>
      list_all (\<lambda>r. sf_snapshot_id r = s_id (last (snapshots d')))
        (drop (length (snapshot_files d)) (snapshot_files d')) \<and>
      list_all2
        (\<lambda>r r'. if b_project_id r = projectId \<and> b_name r = b
                 then r' = r\<lparr>b_head_snapshot_id := Some (s_id (last (snapshots d'))),
                            b_updated_at := b_updated_at r'\<rparr>
                 else r' = r)
        (branches d) (branches d'))"

text \<open>
  The foreign key of \<^verbatim>\<open>snapshot_files\<close>: every file row belongs to a row of \<^verbatim>\<open>snapshots\<close>.
\<close>

definition fk_snapshot_files :: "database \<Rightarrow> bool" where
  "fk_snapshot_files d =
     list_all (\<lambda>r. sf_snapshot_id r \<in> set (map s_id (snapshots d))) (snapshot_files d)"

text \<open>The rows of a file list whose path starts with a prefix, and the other rows.\<close>

definition rows_under :: "string \<Rightarrow> file_entry list \<Rightarrow> file_entry list" where
  "rows_under pre files = filter (\<lambda>f. prefix pre (path f)) files"

definition rows_outside :: "string \<Rightarrow> file_entry list \<Rightarrow> file_entry list" where
  "rows_outside pre files = filter (\<lambda>f. \<not> prefix pre (path f)) files"

text \<open>
  The prefix \<^verbatim>\<open>deleteFolder\<close> matches with (its variable \<^verbatim>\<open>folderPrefix\<close>): the folder path
  itself when it ends in a slash, the folder path and a slash otherwise.
\<close>

definition folder_prefix :: "string \<Rightarrow> string" where
  "folder_prefix folderPath = (if endsWith_slash folderPath then folderPath else folderPath @ ''/'')"

text \<open>The id of the snapshot a successful mutation answers with.\<close>

definition created_id :: "response \<Rightarrow> string option" where
  "created_id r =
     (case body r of
        FileCreated i f \<Rightarrow> Some i
      | FolderCreated i p \<Rightarrow> Some i
      | Deleted i p \<Rightarrow> Some i
      | _ \<Rightarrow> None)"

subsection \<open>Sequences of mutations on one branch\<close>

text \<open>
  A client that sends mutations one at a time, all for one project, branch and user; each
  request meets its own surroundings.  \<open>run\<close> gives, for every request, the world before
  it, the request, the response and the world after it.
\<close>

datatype mutation =
    CreateFile string string
  | CreateFolder string
  | DeleteFile string
  | DeleteFolder string

definition apply_mutation ::
  "lib \<Rightarrow> string \<Rightarrow> string \<Rightarrow> string \<Rightarrow> env \<Rightarrow> mutation \<Rightarrow> world \<Rightarrow> response \<times> world" where
  "apply_mutation L projectId b userId e m w =
     (case m of
        CreateFile filePath content \<Rightarrow>
          createFile L e w projectId (Some b) (Some filePath) (Some content) (Some userId)
      | CreateFolder folderPath \<Rightarrow>
          createFolder L e w projectId (Some b) (Some folderPath) (Some userId)
      | DeleteFile filePath \<Rightarrow>
          deleteFile e w projectId (Some b) (Some filePath) (Some userId)
      | DeleteFolder folderPath \<Rightarrow>
          deleteFolder e w projectId (Some b) (Some folderPath) (Some userId))"

fun run ::
  "lib \<Rightarrow> string \<Rightarrow> string \<Rightarrow> string \<Rightarrow> (env \<times> mutation) list \<Rightarrow> world
     \<Rightarrow> (world \<times> mutation \<times> response \<times> world) list" where
  "run L projectId b userId [] w = []"
| "run L projectId b userId ((e, m) # rest) w =
     (w, m, fst (apply_mutation L projectId b userId e m w),
         snd (apply_mutation L projectId b userId e m w))
     # run L projectId b userId rest (snd (apply_mutation L projectId b userId e m w))"

text \<open>
  The change each mutation is described to make to a set of files: one path replaced or
  added, one placeholder added, one path removed, one subtree removed.
\<close>

fun described_delta :: "lib \<Rightarrow> mutation \<Rightarrow> file_entry set \<Rightarrow> file_entry set" where
  "described_delta L (CreateFile filePath content) F =
     {f \<in> F. path f \<noteq> filePath} \<union>
     {\<lparr>path = filePath, hash = sha256_hex L (base64_decode L content),
       fsize = length (base64_decode L content), mode = 644\<rparr>}"
| "described_delta L (CreateFolder folderPath) F =
     {f \<in> F. path f \<noteq> path_join L folderPath ''.gitkeep''} \<union>
     {\<lparr>path = path_join L folderPath ''.gitkeep'', hash = sha256_hex L [], fsize = 0, mode = 644\<rparr>}"
| "described_delta L (DeleteFile filePath) F = {f \<in> F. path f \<noteq> filePath}"
| "described_delta L (DeleteFolder folderPath) F =
     {f \<in> F. \<not> prefix (folder_prefix folderPath) (path f)}"

text \<open>
  The list of files a mutation hands to \<^verbatim>\<open>createNewSnapshot\<close>, from the list it started from
  (\<^verbatim>\<open>allFiles\<close> and \<^verbatim>\<open>updatedFiles\<close> in the handlers).
\<close>

fun next_files :: "lib \<Rightarrow> mutation \<Rightarrow> file_entry list \<Rightarrow> file_entry list" where
  "next_files L (CreateFile filePath content) files =
     filter (\<lambda>f. path f \<noteq> filePath) files @
     [\<lparr>path = filePath, hash = sha256_hex L (base64_decode L content),
       fsize = length (base64_decode L content), mode = 644\<rparr>]"
| "next_files L (CreateFolder folderPath) files =
     filter (\<lambda>f. path f \<noteq> path_join L folderPath ''.gitkeep'') files @
     [\<lparr>path = path_join L folderPath ''.gitkeep'', hash = sha256_hex L [], fsize = 0, mode = 644\<rparr>]"
| "next_files L (DeleteFile filePath) files = filter (\<lambda>f. path f \<noteq> filePath) files"
| "next_files L (DeleteFolder folderPath) files = rows_outside (folder_prefix folderPath) files"

fun is_create :: "mutation \<Rightarrow> bool" where
  "is_create (CreateFile filePath content) = True"
| "is_create (CreateFolder folderPath) = True"
| "is_create (DeleteFile filePath) = False"
| "is_create (DeleteFolder folderPath) = False"

text \<open>
  Two properties of a world that every mutation on the branch keeps: the foreign key holds
  and the branch has a row; the foreign key holds and the files the branch resolves to have
  pairwise different paths.
\<close>

definition branch_known :: "string \<Rightarrow> string \<Rightarrow> world \<Rightarrow> bool" where
  "branch_known p b w =
     (fk_snapshot_files (db w) \<and> (p, b) \<in> set (map branch_key (branches (db w))))"

definition paths_distinct :: "string \<Rightarrow> string \<Rightarrow> world \<Rightarrow> bool" where
  "paths_distinct p b w =
     (fk_snapshot_files (db w) \<and> distinct (map path (current_files (db w) p (Some b))))"

subsection \<open>Concrete worlds for the examples\<close>

text \<open>Surroundings in which nothing fails.\<close>

definition quiet_env :: "string \<Rightarrow> int \<Rightarrow> env" where
  "quiet_env i t =
     \<lparr>gen_random_uuid = i, now_snapshot = t, now_branch = t, select_error = None,
      write_error = None, upload_error = None, download_error = None\<rparr>"

text \<open>A fresh project: no snapshot, the branch \<^verbatim>\<open>main\<close> with a null head, an empty bucket.\<close>

definition fresh_world :: world where
  "fresh_world =
     \<lparr>db = \<lparr>snapshots = [], snapshot_files = [],
             branches = [\<lparr>b_project_id = ''p1'', b_name = ''main'', b_head_snapshot_id = None,
                          b_updated_at = 0\<rparr>]\<rparr>,
      storage = Map.empty\<rparr>"

text \<open>A project with one snapshot of four files, the head of its branch \<^verbatim>\<open>main\<close>.\<close>

definition sample_files :: "file_entry list" where
  "sample_files =
     [\<lparr>path = ''README.md'', hash = ''h1'', fsize = 5, mode = 644\<rparr>,
      \<lparr>path = ''a/b/c/d.txt'', hash = ''h2'', fsize = 7, mode = 644\<rparr>,
      \<lparr>path = ''a/b/.gitkeep'', hash = ''h0'', fsize = 0, mode = 644\<rparr>,
      \<lparr>path = ''a/bc/e.txt'', hash = ''h3'', fsize = 9, mode = 644\<rparr>]"

definition sample_world :: world where
  "sample_world =
     \<lparr>db = \<lparr>snapshots =
               [\<lparr>s_id = ''s1'', s_project_id = ''p1'', s_user_id = ''u1'', s_title = ''Initial'',
                 s_description = None, s_timestamp = 1, s_file_count = 4,
                 s_external_id = None\<rparr>],
             snapshot_files = map (\<lambda>f. \<lparr>sf_snapshot_id = ''s1'', sf_file = f\<rparr>) sample_files,
             branches = [\<lparr>b_project_id = ''p1'', b_name = ''main'',
                          b_head_snapshot_id = Some ''s1'', b_updated_at = 1\<rparr>]\<rparr>,
      storage = Map.empty\<rparr>"

text \<open>
  The same project beside others: the branch \<^verbatim>\<open>dev\<close> of the project and the branch \<^verbatim>\<open>main\<close> of
  another project have rows too.
\<close>

definition shared_world :: world where
  "shared_world =
     \<lparr>db = \<lparr>snapshots =
               [\<lparr>s_id = ''s1'', s_project_id = ''p1'', s_user_id = ''u1'', s_title = ''Initial'',
                 s_description = None, s_timestamp = 1, s_file_count = 4,
                 s_external_id = None\<rparr>],
             snapshot_files = map (\<lambda>f. \<lparr>sf_snapshot_id = ''s1'', sf_file = f\<rparr>) sample_files,
             branches =
               [\<lparr>b_project_id = ''p1'', b_name = ''main'', b_head_snapshot_id = Some ''s1'',
                 b_updated_at = 1\<rparr>,
                \<lparr>b_project_id = ''p1'', b_name = ''dev'', b_head_snapshot_id = Some ''s1'',
                 b_updated_at = 1\<rparr>,
                \<lparr>b_project_id = ''p2'', b_name = ''main'', b_head_snapshot_id = None,
                 b_updated_at = 0\<rparr>]\<rparr>,
      storage = Map.empty\<rparr>"

text \<open>
  A project that has a snapshot and no row in \<^verbatim>\<open>branches\<close>: its snapshot was uploaded, its
  branches were never listed.
\<close>

definition unbranched_world :: world where
  "unbranched_world =
     \<lparr>db = \<lparr>snapshots =
               [\<lparr>s_id = ''s1'', s_project_id = ''p1'', s_user_id = ''u1'', s_title = ''Initial'',
                 s_description = None, s_timestamp = 1, s_file_count = 4,
                 s_external_id = None\<rparr>],
             snapshot_files = map (\<lambda>f. \<lparr>sf_snapshot_id = ''s1'', sf_file = f\<rparr>) sample_files,
             branches = []\<rparr>,
      storage = Map.empty\<rparr>"

text \<open>
  A database with history: project \<^verbatim>\<open>p1\<close> has two snapshots, \<^verbatim>\<open>main\<close> points at the older one
  and \<^verbatim>\<open>dev\<close> has a null head; project \<^verbatim>\<open>p2\<close> has one snapshot and no branch.
\<close>

definition history_db :: database where
  "history_db =
     \<lparr>snapshots =
        [\<lparr>s_id = ''s1'', s_project_id = ''p1'', s_user_id = ''u1'', s_title = ''First'',
          s_description = None, s_timestamp = 1, s_file_count = 0, s_external_id = None\<rparr>,
         \<lparr>s_id = ''s2'', s_project_id = ''p1'', s_user_id = ''u1'', s_title = ''Second'',
          s_description = None, s_timestamp = 5, s_file_count = 0, s_external_id = None\<rparr>,
         \<lparr>s_id = ''s3'', s_project_id = ''p2'', s_user_id = ''u2'', s_title = ''Other'',
          s_description = None, s_timestamp = 9, s_file_count = 0, s_external_id = None\<rparr>],
      snapshot_files = [],
      branches =
        [\<lparr>b_project_id = ''p1'', b_name = ''main'', b_head_snapshot_id = Some ''s1'',
          b_updated_at = 1\<rparr>,
         \<lparr>b_project_id = ''p1'', b_name = ''dev'', b_head_snapshot_id = None,
          b_updated_at = 1\<rparr>]\<rparr>"

text \<open>A snapshot whose paths tell a prefix from a pattern.\<close>

definition like_db :: database where
  "like_db =
     \<lparr>snapshots =
        [\<lparr>s_id = ''s1'', s_project_id = ''p1'', s_user_id = ''u1'', s_title = ''Initial'',
          s_description = None, s_timestamp = 1, s_file_count = 2, s_external_id = None\<rparr>],
      snapshot_files =
        [\<lparr>sf_snapshot_id = ''s1'',
          sf_file = \<lparr>path = ''ab/x.txt'', hash = ''h1'', fsize = 3, mode = 644\<rparr>\<rparr>,
         \<lparr>sf_snapshot_id = ''s1'',
          sf_file = \<lparr>path = ''a/b/y.txt'', hash = ''h2'', fsize = 4, mode = 644\<rparr>\<rparr>],
      branches =
        [\<lparr>b_project_id = ''p1'', b_name = ''main'', b_head_snapshot_id = Some ''s1'',
          b_updated_at = 1\<rparr>]\<rparr>"

text \<open>The base path \<^verbatim>\<open>a\b\<close>: the letter a, a backslash, the letter b.\<close>

definition backslash_path :: string where
  "backslash_path = [CHR ''a'', CHR 0x5C, CHR ''b'']"

text \<open>The characters with a meaning of their own in a \<^verbatim>\<open>LIKE\<close> pattern.\<close>

definition like_meta :: "char \<Rightarrow> bool" where
  "like_meta c = (c = CHR ''%'' \<or> c = CHR ''_'' \<or> c = CHR 0x5C)"

text \<open>Two short sequences of mutations on the branch \<^verbatim>\<open>main\<close> of the fresh project.\<close>

definition edit_steps :: "(env \<times> mutation) list" where
  "edit_steps =
     [(quiet_env ''s1'' 1, CreateFile ''README.md'' ''aGVsbG8=''),
      (quiet_env ''s2'' 2, DeleteFile ''README.md'')]"

definition update_steps :: "(env \<times> mutation) list" where
  "update_steps =
     [(quiet_env ''s1'' 1, CreateFile ''a.txt'' ''YQ==''),
      (quiet_env ''s2'' 2, CreateFile ''a.txt'' ''Yg=='')]"

section \<open>Properties\<close>

subsection \<open>Facts about the helpers\<close>

lemma createNewSnapshot_Inr:
  assumes "createNewSnapshot e d projectId userId files title = Inr (i, d')"
  shows "i = gen_random_uuid e" and "i \<notin> set (map s_id (snapshots d))"
    and "write_error e = None"
    and "snapshots d' = snapshots d @
        [\<lparr>s_id = i, s_project_id = projectId, s_user_id = userId, s_title = title,
          s_description = None, s_timestamp = now_snapshot e, s_file_count = length files,
          s_external_id = None\<rparr>]"
    and "snapshot_files d' =
           snapshot_files d @ map (\<lambda>f. \<lparr>sf_snapshot_id = i, sf_file = f\<rparr>) files"
    and "branches d' = branches d"
  using assms
  by (auto simp: createNewSnapshot_def Let_def split: option.splits if_splits)

lemma updateBranchHead_tables:
  "snapshots (updateBranchHead e d p b i) = snapshots d"
  "snapshot_files (updateBranchHead e d p b i) = snapshot_files d"
  "map branch_key (branches (updateBranchHead e d p b i)) = map branch_key (branches d)"
  by (simp_all add: updateBranchHead_def branch_key_def)

lemma latest_None:
  "latest_project_snapshot d p = None \<longleftrightarrow> (\<forall>s\<in>set (snapshots d). s_project_id s \<noteq> p)"
proof -
  have "sort_key (\<lambda>s. - s_timestamp s) (filter (\<lambda>s. s_project_id s = p) (snapshots d)) = [] \<longleftrightarrow>
        filter (\<lambda>s. s_project_id s = p) (snapshots d) = []"
    by (metis set_sort set_empty)
  then show ?thesis
    by (auto simp: latest_project_snapshot_def filter_empty_conv split: list.splits)
qed

lemma latest_Some:
  assumes "latest_project_snapshot d p = Some s"
  shows "s \<in> set (snapshots d)" and "s_project_id s = p"
    and "\<And>t. t \<in> set (snapshots d) \<Longrightarrow> s_project_id t = p \<Longrightarrow> s_timestamp t \<le> s_timestamp s"
proof -
  let ?xs = "filter (\<lambda>s. s_project_id s = p) (snapshots d)"
  let ?ys = "sort_key (\<lambda>s. - s_timestamp s) ?xs"
  from assms obtain rest where ys: "?ys = s # rest"
    by (auto simp: latest_project_snapshot_def split: list.splits)
  have mem: "set ?ys = set ?xs" by simp
  have "s \<in> set ?xs" using ys mem by (metis list.set_intros(1))
  then show "s \<in> set (snapshots d)" and "s_project_id s = p" by auto
  fix t assume "t \<in> set (snapshots d)" and "s_project_id t = p"
  then have "t \<in> set ?ys" by simp
  moreover have "sorted (map (\<lambda>s. - s_timestamp s) ?ys)" by (rule sorted_sort_key)
  ultimately have "- s_timestamp s \<le> - s_timestamp t"
    unfolding ys by auto
  then show "s_timestamp t \<le> s_timestamp s" by simp
qed

lemma find_unique_row:
  assumes "distinct (map branch_key rows)" and "r \<in> set rows"
    and "b_project_id r = p" and "b_name r = b"
  shows "find (\<lambda>r. b_project_id r = p \<and> b_name r = b) rows = Some r"
  using assms
proof (induction rows)
  case Nil
  then show ?case by simp
next
  case (Cons x rows)
  show ?case
  proof (cases "x = r")
    case True
    with Cons.prems show ?thesis by simp
  next
    case False
    with Cons.prems have "r \<in> set rows" by simp
    with Cons.prems have "branch_key x \<noteq> branch_key r" by (auto simp: image_iff) 
    then have np: "\<not> (b_project_id x = p \<and> b_name x = b)"
      using Cons.prems by (auto simp: branch_key_def)
    have "find (\<lambda>r. b_project_id r = p \<and> b_name r = b) rows = Some r"
      using Cons.IH Cons.prems \<open>r \<in> set rows\<close> by simp
    with np show ?thesis by auto
  qed
qed


lemma filter_keeps_length_iff: "length xs = length (filter P xs) \<longleftrightarrow> (\<forall>x\<in>set xs. P x)"
  by (metis filter_id_conv length_filter_less less_irrefl)

lemma no_rows_of_fresh_id:
  assumes "fk_snapshot_files d" and "i \<notin> set (map s_id (snapshots d))"
  shows "filter (\<lambda>r. sf_snapshot_id r = i) (snapshot_files d) = []"
  using assms by (auto simp: fk_snapshot_files_def list_all_iff filter_empty_conv)

lemma getFiles_after_commit:
  assumes "fk_snapshot_files d" and "createNewSnapshot e d p u files title = Inr (i, d1)"
  shows "getFilesInSnapshot (updateBranchHead e' d1 p' b j) k =
           (if k = i then files else getFilesInSnapshot d k)"
proof -
  have fresh: "i \<notin> set (map s_id (snapshots d))"
    and rows: "snapshot_files d1 =
                 snapshot_files d @ map (\<lambda>f. \<lparr>sf_snapshot_id = i, sf_file = f\<rparr>) files"
    by (rule createNewSnapshot_Inr [OF assms(2)])+
  have old: "filter (\<lambda>r. sf_snapshot_id r = i) (snapshot_files d) = []"
    using assms(1) fresh by (rule no_rows_of_fresh_id)
  show ?thesis
  proof (cases "k = i")
    case True
    then show ?thesis
      by (simp add: getFilesInSnapshot_def updateBranchHead_tables rows old filter_map o_def)
  next
    case False
    then have "filter (\<lambda>r. sf_snapshot_id r = k) (map (\<lambda>f. \<lparr>sf_snapshot_id = i, sf_file = f\<rparr>) files) = []"
      by (auto simp: filter_empty_conv)
    with False show ?thesis
      by (simp add: getFilesInSnapshot_def updateBranchHead_tables rows)
  qed
qed

lemma fk_after_commit:
  assumes "fk_snapshot_files d" and "createNewSnapshot e d p u files title = Inr (i, d1)"
  shows "fk_snapshot_files (updateBranchHead e' d1 p' b j)"
proof -
  have "snapshots d1 = snapshots d @
        [\<lparr>s_id = i, s_project_id = p, s_user_id = u, s_title = title,
          s_description = None, s_timestamp = now_snapshot e, s_file_count = length files,
          s_external_id = None\<rparr>]"
    and "snapshot_files d1 =
                 snapshot_files d @ map (\<lambda>f. \<lparr>sf_snapshot_id = i, sf_file = f\<rparr>) files"
    by (rule createNewSnapshot_Inr [OF assms(2)])+
  with assms(1) show ?thesis
    by (auto simp: fk_snapshot_files_def list_all_iff updateBranchHead_tables)
qed

lemma find_after_update:
  "find (\<lambda>r. b_project_id r = p \<and> b_name r = b)
     (map (\<lambda>r. if b_project_id r = p \<and> b_name r = b
                then r\<lparr>b_head_snapshot_id := Some i, b_updated_at := t\<rparr> else r) rows) =
   map_option (\<lambda>r. r\<lparr>b_head_snapshot_id := Some i, b_updated_at := t\<rparr>)
     (find (\<lambda>r. b_project_id r = p \<and> b_name r = b) rows)"
  by (induction rows) auto

lemma branch_head_after_update:
  assumes "(p, b) \<in> set (map branch_key (branches d))"
  shows "branch_head (updateBranchHead e d p b i) p b = Some i"
proof -
  from assms obtain r where "r \<in> set (branches d)" "b_project_id r = p \<and> b_name r = b"
    by (auto simp: branch_key_def)
  then have "find (\<lambda>r. b_project_id r = p \<and> b_name r = b) (branches d) \<noteq> None"
    by (auto simp: find_None_iff)
  then show ?thesis
    by (auto simp: branch_head_def updateBranchHead_def find_after_update)
qed

lemma createNewSnapshot_succeeds:
  assumes "write_error e = None" and "gen_random_uuid e \<notin> set (map s_id (snapshots d))"
  shows "\<exists>d1. createNewSnapshot e d p u files title = Inr (gen_random_uuid e, d1)"
  using assms by (simp add: createNewSnapshot_def Let_def)

lemma current_files_Some:
  "resolveSnapshotId d p br = Some s \<Longrightarrow> current_files d p br = getFilesInSnapshot d s"
  by (simp add: current_files_def)


lemma createFile_commits:
  assumes "truthy branch" and "truthy filePath" and "content = Some c" and "truthy userId"
    and "select_error e = None" and "upload_error e = None" and "write_error e = None"
    and "gen_random_uuid e \<notin> set (map s_id (snapshots (db w)))"
  shows "\<exists>d1. createNewSnapshot e (db w) projectId (the userId)
                 (filter (\<lambda>f. path f \<noteq> the filePath) (current_files (db w) projectId branch) @
                  [\<lparr>path = the filePath, hash = sha256_hex L (base64_decode L c),
                    fsize = length (base64_decode L c), mode = 644\<rparr>])
                 (''Create file: '' @ the filePath) = Inr (gen_random_uuid e, d1) \<and>
              createFile L e w projectId branch filePath content userId =
                (Response 201 (FileCreated (gen_random_uuid e)
                     \<lparr>path = the filePath, hash = sha256_hex L (base64_decode L c),
                      fsize = length (base64_decode L c), mode = 644\<rparr>),
                 \<lparr>db = updateBranchHead e d1 projectId (the branch) (gen_random_uuid e),
                  storage = (storage w)(projectId @ ''/'' @ sha256_hex L (base64_decode L c)
                                          \<mapsto> base64_decode L c)\<rparr>)"
proof -
  let ?files = "filter (\<lambda>f. path f \<noteq> the filePath) (current_files (db w) projectId branch) @
                  [\<lparr>path = the filePath, hash = sha256_hex L (base64_decode L c),
                    fsize = length (base64_decode L c), mode = 644\<rparr>]"
  obtain d1 where c: "createNewSnapshot e (db w) projectId (the userId) ?files
        (''Create file: '' @ the filePath) = Inr (gen_random_uuid e, d1)"
    using createNewSnapshot_succeeds [OF assms(7,8)] by blast
  have "createFile L e w projectId branch filePath content userId =
                (Response 201 (FileCreated (gen_random_uuid e)
                     \<lparr>path = the filePath, hash = sha256_hex L (base64_decode L c),
                      fsize = length (base64_decode L c), mode = 644\<rparr>),
                 \<lparr>db = updateBranchHead e d1 projectId (the branch) (gen_random_uuid e),
                  storage = (storage w)(projectId @ ''/'' @ sha256_hex L (base64_decode L c)
                                          \<mapsto> base64_decode L c)\<rparr>)"
    using assms(1-6) c
    by (simp add: createFile_def Let_def current_files_def upload_def split: option.splits)
  with c show ?thesis by blast
qed

lemma resolve_after_update:
  assumes "(p, b) \<in> set (map branch_key (branches d))" and "b \<noteq> []"
  shows "resolveSnapshotId (updateBranchHead e d p b i) p (Some b) = Some i"
proof -
  from assms(1) obtain r where "r \<in> set (branches d)" "b_project_id r = p \<and> b_name r = b"
    by (auto simp: branch_key_def)
  then have "find (\<lambda>r. b_project_id r = p \<and> b_name r = b) (branches d) \<noteq> None"
    by (auto simp: find_None_iff)
  with assms(2) show ?thesis
    by (auto simp: resolveSnapshotId_def Let_def updateBranchHead_def find_after_update)
qed

lemma find_append_cases:
  "find P (xs @ ys) = (case find P xs of None \<Rightarrow> find P ys | Some x \<Rightarrow> Some x)"
  by (induction xs) auto

lemma find_new_row:
  assumes "fk_snapshot_files d" and "createNewSnapshot e d p u (filter (\<lambda>f. path f \<noteq> fp) old @ [new]) title = Inr (i, d1)"
    and "path new = fp"
  shows "find (\<lambda>r. sf_snapshot_id r = i \<and> path (sf_file r) = fp)
           (snapshot_files (updateBranchHead e' d1 p' b j)) = Some \<lparr>sf_snapshot_id = i, sf_file = new\<rparr>"
proof -
  have fresh: "i \<notin> set (map s_id (snapshots d))"
    and rows: "snapshot_files d1 = snapshot_files d @
       map (\<lambda>f. \<lparr>sf_snapshot_id = i, sf_file = f\<rparr>) (filter (\<lambda>f. path f \<noteq> fp) old @ [new])"
    by (rule createNewSnapshot_Inr [OF assms(2)])+
  have "filter (\<lambda>r. sf_snapshot_id r = i) (snapshot_files d) = []"
    using assms(1) fresh by (rule no_rows_of_fresh_id)
  then have 1: "find (\<lambda>r. sf_snapshot_id r = i \<and> path (sf_file r) = fp) (snapshot_files d) = None"
    by (auto simp: find_None_iff filter_empty_conv)
  have 2: "find (\<lambda>r. sf_snapshot_id r = i \<and> path (sf_file r) = fp)
             (map (\<lambda>f. \<lparr>sf_snapshot_id = i, sf_file = f\<rparr>) (filter (\<lambda>f. path f \<noteq> fp) old)) = None"
    by (auto simp: find_None_iff)
  show ?thesis
    using 1 2 assms(3) by (simp add: updateBranchHead_tables rows find_append_cases)
qed

lemma blob_keys_differ: "p @ ''/'' @ h \<noteq> p @ ''/'' @ i @ ''/'' @ h"
proof
  assume "p @ ''/'' @ h = p @ ''/'' @ i @ ''/'' @ h"
  then have "length (p @ ''/'' @ h) = length (p @ ''/'' @ i @ ''/'' @ h)" by (rule arg_cong)
  then show False by simp
qed

lemma sample_resolve_main [simp]:
  "resolveSnapshotId (db sample_world) ''p1'' (Some ''main'') = Some ''s1''"
  by (simp add: resolveSnapshotId_def sample_world_def)

lemma sample_files_of_s1 [simp]: "getFilesInSnapshot (db sample_world) ''s1'' = sample_files"
  by (simp add: getFilesInSnapshot_def sample_world_def sample_files_def)

lemma sample_fk: "fk_snapshot_files (db sample_world)"
  by (simp add: fk_snapshot_files_def sample_world_def sample_files_def)

lemma sample_ids: "s_id ` set (snapshots (db sample_world)) = {''s1''}"
  by (simp add: sample_world_def)

lemma quiet_env_simps [simp]:
  "gen_random_uuid (quiet_env i t) = i" "now_snapshot (quiet_env i t) = t"
  "now_branch (quiet_env i t) = t" "select_error (quiet_env i t) = None"
  "write_error (quiet_env i t) = None" "upload_error (quiet_env i t) = None"
  "download_error (quiet_env i t) = None"
  by (simp_all add: quiet_env_def)

lemma fresh_world_facts:
  "fk_snapshot_files (db fresh_world)"
  "s_id ` set (snapshots (db fresh_world)) = {}"
  "(''p1'', ''main'') \<in> branch_key ` set (branches (db fresh_world))"
  "storage fresh_world k = None"
  by (simp_all add: fresh_world_def fk_snapshot_files_def branch_key_def)

subsection \<open>Deleting a file that is not there\<close>

text \<open>
  C5.  When the request is complete, the reads succeed and the snapshot the branch resolves
  to has no row at exactly the path, \<^verbatim>\<open>deleteFile\<close> answers 404 and the world after it is the
  world before it: no snapshot row, no file row, no change of a branch head.
\<close>

theorem deleteFile_missing_path:
  assumes "truthy branch" and "truthy filePath" and "truthy userId" and "select_error e = None"
    and "resolveSnapshotId (db w) projectId branch = Some s"
    and "the filePath \<notin> set (map path (getFilesInSnapshot (db w) s))"
  shows "status (fst (deleteFile e w projectId branch filePath userId)) = 404 \<and>
         snd (deleteFile e w projectId branch filePath userId) = w"
proof -
  have "length (getFilesInSnapshot (db w) s) =
        length (filter (\<lambda>f. path f \<noteq> the filePath) (getFilesInSnapshot (db w) s))"
    using assms(6) unfolding filter_keeps_length_iff by force
  then show ?thesis
    using assms(1-5) by (simp add: deleteFile_def Let_def)
qed

theorem deleteFile_missing_path_witness:
  "status (fst (deleteFile (quiet_env ''s2'' 2) sample_world ''p1'' (Some ''main'')
                  (Some ''a/b/missing.txt'') (Some ''u1''))) = 404 \<and>
   snd (deleteFile (quiet_env ''s2'' 2) sample_world ''p1'' (Some ''main'')
          (Some ''a/b/missing.txt'') (Some ''u1'')) = sample_world"
proof -
  have "the (Some ''a/b/missing.txt'') \<notin> set (map path (getFilesInSnapshot (db sample_world) ''s1''))"
    by (simp add: sample_files_def)
  then show ?thesis
    using deleteFile_missing_path [of "Some ''main''" "Some ''a/b/missing.txt''" "Some ''u1''"
        "quiet_env ''s2'' 2" sample_world "''p1''" "''s1''"]
    by (simp add: truthy_def quiet_env_def)
qed

subsection \<open>A failed upload aborts the creation of a file\<close>

text \<open>
  C7.  Whenever the request is complete and the blob store answers the upload of the content
  with an error, \<^verbatim>\<open>createFile\<close> answers 500 and the world after it is the world before it:
  the handler raises before \<^verbatim>\<open>createNewSnapshot\<close> and \<^verbatim>\<open>updateBranchHead\<close> run, so no row of
  \<^verbatim>\<open>snapshots\<close> or \<^verbatim>\<open>snapshot_files\<close> is written and no branch head moves.
\<close>

theorem createFile_upload_failure:
  assumes "truthy branch" and "truthy filePath" and "content = Some c" and "truthy userId"
    and "upload_error e = Some m"
  shows "status (fst (createFile L e w projectId branch filePath content userId)) = 500 \<and>
         snd (createFile L e w projectId branch filePath content userId) = w"
  using assms by (simp add: createFile_def Let_def upload_def server_error_def split: option.splits)

theorem createFile_upload_failure_witness:
  "\<forall>L. status (fst (createFile L ((quiet_env ''s2'' 2)\<lparr>upload_error := Some ''bucket not found''\<rparr>)
                      sample_world ''p1'' (Some ''main'') (Some ''notes.txt'') (Some ''aGk='')
                      (Some ''u1''))) = 500 \<and>
        snd (createFile L ((quiet_env ''s2'' 2)\<lparr>upload_error := Some ''bucket not found''\<rparr>)
               sample_world ''p1'' (Some ''main'') (Some ''notes.txt'') (Some ''aGk='')
               (Some ''u1'')) = sample_world"
  using createFile_upload_failure [of "Some ''main''" "Some ''notes.txt''" "Some ''aGk=''" "''aGk=''"
      "Some ''u1''" "(quiet_env ''s2'' 2)\<lparr>upload_error := Some ''bucket not found''\<rparr>"
      "''bucket not found''" _ sample_world "''p1''"]
  by (simp add: truthy_def quiet_env_def)

subsection \<open>Which snapshot a request is about\<close>

text \<open>
  C2.  Let the rows of \<^verbatim>\<open>branches\<close> have pairwise different (project, name), as the
  uniqueness constraint says.  \<^verbatim>\<open>resolveSnapshotId\<close> returns the head pointer of the branch
  when a non-empty branch name is given, a row for the project and the name exists and its
  head pointer is not null.  In every other case it returns the id of
  \<^verbatim>\<open>latest_project_snapshot\<close>, which is null exactly when the project has no snapshot, and
  otherwise a snapshot of the project whose timestamp no snapshot of the project exceeds.
\<close>

theorem resolveSnapshotId_cases:
  assumes "distinct (map branch_key (branches d))"
  shows
    "(\<forall>b r h. branch = Some b \<and> b \<noteq> [] \<and> r \<in> set (branches d) \<and> b_project_id r = p \<and>
        b_name r = b \<and> b_head_snapshot_id r = Some h
        \<longrightarrow> resolveSnapshotId d p branch = Some h) \<and>
     ((\<nexists>b r h. branch = Some b \<and> b \<noteq> [] \<and> r \<in> set (branches d) \<and> b_project_id r = p \<and>
        b_name r = b \<and> b_head_snapshot_id r = Some h)
        \<longrightarrow> resolveSnapshotId d p branch = map_option s_id (latest_project_snapshot d p)) \<and>
     ((latest_project_snapshot d p = None) = (\<forall>s\<in>set (snapshots d). s_project_id s \<noteq> p)) \<and>
     (\<forall>s. latest_project_snapshot d p = Some s \<longrightarrow>
        s \<in> set (snapshots d) \<and> s_project_id s = p \<and>
        (\<forall>t\<in>set (snapshots d). s_project_id t = p \<longrightarrow> s_timestamp t \<le> s_timestamp s))"
proof -
  have head: "resolveSnapshotId d p branch = Some h"
    if a: "branch = Some b \<and> b \<noteq> [] \<and> r \<in> set (branches d) \<and> b_project_id r = p \<and>
        b_name r = b \<and> b_head_snapshot_id r = Some h" for b r h
  proof -
    have "find (\<lambda>r. b_project_id r = p \<and> b_name r = b) (branches d) = Some r"
      using a assms find_unique_row by blast
    with a show ?thesis by (simp add: resolveSnapshotId_def Let_def)
  qed
  have fallback: "resolveSnapshotId d p branch = map_option s_id (latest_project_snapshot d p)"
    if n: "\<nexists>b r h. branch = Some b \<and> b \<noteq> [] \<and> r \<in> set (branches d) \<and> b_project_id r = p \<and>
        b_name r = b \<and> b_head_snapshot_id r = Some h"
  proof (cases branch)
    case None
    then show ?thesis by (simp add: resolveSnapshotId_def Let_def)
  next
    case (Some b)
    show ?thesis
    proof (cases "find (\<lambda>r. b_project_id r = p \<and> b_name r = b) (branches d)")
      case None
      with Some show ?thesis by (simp add: resolveSnapshotId_def Let_def)
    next
      case found: (Some r)
      then have "r \<in> set (branches d)" and "b_project_id r = p \<and> b_name r = b"
        by (auto simp: find_Some_iff)
      with n Some have "b = [] \<or> b_head_snapshot_id r = None"
        by (cases "b_head_snapshot_id r") auto
      with found Some show ?thesis by (auto simp: resolveSnapshotId_def Let_def)
    qed
  qed
  have latest: "s \<in> set (snapshots d) \<and> s_project_id s = p \<and>
        (\<forall>t\<in>set (snapshots d). s_project_id t = p \<longrightarrow> s_timestamp t \<le> s_timestamp s)"
    if "latest_project_snapshot d p = Some s" for s
    using latest_Some [OF that] by blast
  show ?thesis
    using head fallback latest latest_None [of d p] by blast
qed

theorem resolveSnapshotId_cases_witness:
  "distinct (map branch_key (branches history_db)) \<and>
   resolveSnapshotId history_db ''p1'' (Some ''main'') = Some ''s1'' \<and>
   resolveSnapshotId history_db ''p1'' (Some ''dev'') = Some ''s2'' \<and>
   resolveSnapshotId history_db ''p1'' None = Some ''s2'' \<and>
   resolveSnapshotId history_db ''p3'' (Some ''main'') = None"
  using resolveSnapshotId_cases [of history_db "Some ''main''" "''p1''"]
  by (simp add: history_db_def branch_key_def resolveSnapshotId_def latest_project_snapshot_def)

subsection \<open>The rows a tree listing selects\<close>

lemma like_percent [simp]: "like s ''%''"
  by (induction s) auto

lemma like_plain_prefix:
  "list_all (\<lambda>c. \<not> like_meta c) p \<Longrightarrow> like s (p @ ''%'') = prefix p s"
proof (induction p arbitrary: s)
  case Nil
  then show ?case by simp
next
  case (Cons c p)
  then show ?case by (cases s) (auto simp: like_meta_def)
qed


lemma tree_rows_set:
  "set (tree_rows d i pre) =
   {f \<in> set (getFilesInSnapshot d i). like (path f) (pre @ ''%'')}"
  by (auto simp: tree_rows_def getFilesInSnapshot_def)

text \<open>
  C9, as amended.  When the base path, stripped of the slashes at its ends, contains none of
  \<^verbatim>\<open>%\<close>, \<^verbatim>\<open>_\<close> and the backslash, the query of \<^verbatim>\<open>getTree\<close> selects exactly the rows of the
  snapshot whose path starts with the stripped base path and a slash, and all rows of the
  snapshot when the stripped base path is empty.  And there is a base path containing \<^verbatim>\<open>_\<close>
  for which a row is selected whose path does not start with that prefix.
\<close>

theorem getTree_selection:
  "(list_all (\<lambda>c. \<not> like_meta c) (strip_slashes path_param) \<longrightarrow>
      set (tree_rows d snapshotId (likePrefix_of path_param)) =
        {f \<in> set (getFilesInSnapshot d snapshotId). prefix (likePrefix_of path_param) (path f)}) \<and>
   (strip_slashes path_param = [] \<longrightarrow>
      set (tree_rows d snapshotId (likePrefix_of path_param)) = set (getFilesInSnapshot d snapshotId)) \<and>
   (\<exists>d' snapshotId' path_param' f.
      CHR ''_'' \<in> set (strip_slashes path_param') \<and>
      f \<in> set (tree_rows d' snapshotId' (likePrefix_of path_param')) \<and>
      \<not> prefix (likePrefix_of path_param') (path f))"
proof (intro conjI impI)
  assume plain: "list_all (\<lambda>c. \<not> like_meta c) (strip_slashes path_param)"
  then have "list_all (\<lambda>c. \<not> like_meta c) (likePrefix_of path_param)"
    by (simp add: likePrefix_of_def Let_def like_meta_def)
  then show "set (tree_rows d snapshotId (likePrefix_of path_param)) =
        {f \<in> set (getFilesInSnapshot d snapshotId). prefix (likePrefix_of path_param) (path f)}"
    by (simp add: tree_rows_set like_plain_prefix)
next
  assume "strip_slashes path_param = []"
  then show "set (tree_rows d snapshotId (likePrefix_of path_param)) = set (getFilesInSnapshot d snapshotId)"
    by (simp add: tree_rows_set likePrefix_of_def)
next
  have "CHR ''_'' \<in> set (strip_slashes ''a_'')" by (simp add: strip_slashes_def)
  moreover have "\<lparr>path = ''ab/x.txt'', hash = ''h1'', fsize = 3, mode = 644\<rparr>
      \<in> set (tree_rows like_db ''s1'' (likePrefix_of ''a_''))"
    by (simp add: tree_rows_set likePrefix_of_def strip_slashes_def getFilesInSnapshot_def like_db_def)
  moreover have "\<not> prefix (likePrefix_of ''a_'') (path \<lparr>path = ''ab/x.txt'', hash = ''h1'', fsize = 3, mode = 644\<rparr>)"
    by (simp add: likePrefix_of_def strip_slashes_def)
  ultimately show "\<exists>d' snapshotId' path_param' f.
      CHR ''_'' \<in> set (strip_slashes path_param') \<and>
      f \<in> set (tree_rows d' snapshotId' (likePrefix_of path_param')) \<and>
      \<not> prefix (likePrefix_of path_param') (path f)"
    by blast
qed

theorem getTree_selection_witness:
  "list_all (\<lambda>c. \<not> like_meta c) (strip_slashes ''/a/b/'') \<and>
   set (tree_rows (db sample_world) ''s1'' (likePrefix_of ''/a/b/'')) =
     {\<lparr>path = ''a/b/c/d.txt'', hash = ''h2'', fsize = 7, mode = 644\<rparr>,
      \<lparr>path = ''a/b/.gitkeep'', hash = ''h0'', fsize = 0, mode = 644\<rparr>} \<and>
   set (tree_rows (db sample_world) ''s1'' (likePrefix_of ''/'')) = set sample_files"
proof -
  have 1: "list_all (\<lambda>c. \<not> like_meta c) (strip_slashes ''/a/b/'')"
    by (simp add: strip_slashes_def like_meta_def)
  have 2: "strip_slashes ''/'' = []"
    by (simp add: strip_slashes_def)
  have 3: "likePrefix_of ''/a/b/'' = ''a/b/''"
    by (simp add: likePrefix_of_def strip_slashes_def)
  have 4: "{f \<in> set sample_files. prefix ''a/b/'' (path f)} =
     {\<lparr>path = ''a/b/c/d.txt'', hash = ''h2'', fsize = 7, mode = 644\<rparr>,
      \<lparr>path = ''a/b/.gitkeep'', hash = ''h0'', fsize = 0, mode = 644\<rparr>}"
    unfolding set_filter [symmetric] by (simp add: sample_files_def)
  have A: "set (tree_rows (db sample_world) ''s1'' (likePrefix_of ''/a/b/'')) =
        {f \<in> set (getFilesInSnapshot (db sample_world) ''s1'').
           prefix (likePrefix_of ''/a/b/'') (path f)}"
    by (rule mp [OF conjunct1 [OF getTree_selection [of "''/a/b/''" "db sample_world" "''s1''"]] 1])
  have B: "set (tree_rows (db sample_world) ''s1'' (likePrefix_of ''/'')) =
        set (getFilesInSnapshot (db sample_world) ''s1'')"
    by (rule mp [OF conjunct1 [OF conjunct2 [OF getTree_selection [of "''/''" "db sample_world" "''s1''"]]] 2])
  have A': "set (tree_rows (db sample_world) ''s1'' (likePrefix_of ''/a/b/'')) =
     {\<lparr>path = ''a/b/c/d.txt'', hash = ''h2'', fsize = 7, mode = 644\<rparr>,
      \<lparr>path = ''a/b/.gitkeep'', hash = ''h0'', fsize = 0, mode = 644\<rparr>}"
    using A 4 by (simp only: 3 sample_files_of_s1)
  have B': "set (tree_rows (db sample_world) ''s1'' (likePrefix_of ''/'')) = set sample_files"
    using B by (simp only: sample_files_of_s1)
  from 1 A' B' show ?thesis by (intro conjI)
qed

text \<open>
  The claim as it was stated allows the backslash in the base path.  For the base path
  \<^verbatim>\<open>a\b\<close>, which contains neither \<^verbatim>\<open>%\<close> nor \<^verbatim>\<open>_\<close>, the pattern is \<^verbatim>\<open>a\b/%\<close>, in which the
  backslash escapes the letter b: the row \<^verbatim>\<open>ab/x.txt\<close> is selected, and its path does not
  start with \<^verbatim>\<open>a\b/\<close>.  The listing cuts four characters off that path and shows a file
  \<^verbatim>\<open>.txt\<close>.
\<close>

theorem getTree_selection_counterexample:
  "CHR ''%'' \<notin> set (strip_slashes backslash_path) \<and>
   CHR ''_'' \<notin> set (strip_slashes backslash_path) \<and>
   \<lparr>path = ''ab/x.txt'', hash = ''h1'', fsize = 3, mode = 644\<rparr>
      \<in> set (tree_rows like_db ''s1'' (likePrefix_of backslash_path)) \<and>
   \<not> prefix (likePrefix_of backslash_path) ''ab/x.txt'' \<and>
   getTree (quiet_env ''s9'' 9) \<lparr>db = like_db, storage = Map.empty\<rparr> ''p1'' (Some ''main'')
     (Some backslash_path) = Response 200 (TreeBody [FileEntry ''.txt'' 3])"
proof -
  have rows: "CHR ''%'' \<notin> set (strip_slashes backslash_path) \<and>
      CHR ''_'' \<notin> set (strip_slashes backslash_path) \<and>
      \<lparr>path = ''ab/x.txt'', hash = ''h1'', fsize = 3, mode = 644\<rparr>
        \<in> set (tree_rows like_db ''s1'' (likePrefix_of backslash_path)) \<and>
      \<not> prefix (likePrefix_of backslash_path) ''ab/x.txt''"
    by (simp add: tree_rows_set likePrefix_of_def strip_slashes_def getFilesInSnapshot_def
          like_db_def backslash_path_def)
  have listing: "getTree (quiet_env ''s9'' 9) \<lparr>db = like_db, storage = Map.empty\<rparr> ''p1''
      (Some ''main'') (Some backslash_path) = Response 200 (TreeBody [FileEntry ''.txt'' 3])"
    by (simp add: getTree_def resolveSnapshotId_def like_db_def tree_rows_def likePrefix_of_def
          strip_slashes_def backslash_path_def Let_def)
  from rows listing show ?thesis by (intro conjI) simp_all
qed

subsection \<open>Deleting a folder\<close>

lemma rows_under_empty_iff:
  "length files = length (filter (\<lambda>f. \<not> prefix pre (path f)) files) \<longleftrightarrow> rows_under pre files = []"
  unfolding filter_keeps_length_iff by (auto simp: rows_under_def filter_empty_conv)

lemma deleteFolder_nothing_under:
  assumes "truthy branch" and "truthy folderPath" and "truthy userId"
    and "select_error e = None"
    and "resolveSnapshotId (db w) projectId branch = Some s"
    and "rows_under (folder_prefix (the folderPath)) (getFilesInSnapshot (db w) s) = []"
  shows "deleteFolder e w projectId branch folderPath userId =
       (Response 404 (ErrorBody (''Folder not found or already empty at path: '' @ the folderPath)), w)"
  using assms(1-5) assms(6) [folded rows_under_empty_iff]
  by (simp add: deleteFolder_def Let_def folder_prefix_def)

lemma deleteFolder_something_under:
  assumes "truthy branch" and "truthy folderPath" and "truthy userId"
    and "select_error e = None"
    and "resolveSnapshotId (db w) projectId branch = Some s"
    and "rows_under (folder_prefix (the folderPath)) (getFilesInSnapshot (db w) s) \<noteq> []"
    and "write_error e = None" and "gen_random_uuid e \<notin> set (map s_id (snapshots (db w)))"
  shows "\<exists>d1. createNewSnapshot e (db w) projectId (the userId)
                 (rows_outside (folder_prefix (the folderPath)) (getFilesInSnapshot (db w) s))
                 (''Delete folder: '' @ the folderPath) = Inr (gen_random_uuid e, d1) \<and>
              deleteFolder e w projectId branch folderPath userId =
                (Response 200 (Deleted (gen_random_uuid e) (the folderPath)),
                 w\<lparr>db := updateBranchHead e d1 projectId (the branch) (gen_random_uuid e)\<rparr>)"
proof -
  let ?kept = "rows_outside (folder_prefix (the folderPath)) (getFilesInSnapshot (db w) s)"
  obtain d1 where c: "createNewSnapshot e (db w) projectId (the userId) ?kept
        (''Delete folder: '' @ the folderPath) = Inr (gen_random_uuid e, d1)"
    using createNewSnapshot_succeeds [OF assms(7,8)] by blast
  have "deleteFolder e w projectId branch folderPath userId =
       (Response 200 (Deleted (gen_random_uuid e) (the folderPath)),
        w\<lparr>db := updateBranchHead e d1 projectId (the branch) (gen_random_uuid e)\<rparr>)"
    using assms(1-5) assms(6) [folded rows_under_empty_iff] c
    by (simp add: deleteFolder_def Let_def folder_prefix_def rows_outside_def)
  with c show ?thesis by blast
qed

text \<open>
  C4, as amended.  Let the request be complete, the reads succeed, the branch resolve to a
  snapshot, and every file row belong to a snapshot row.  \<^verbatim>\<open>deleteFolder\<close> matches the rows
  of that snapshot against the folder prefix: the path itself when it already ends in a
  slash, the path followed by a slash otherwise.  When no row starts with the prefix it
  answers 404 and changes nothing.  When some row does and the writes succeed, it answers
  200 and the files of the new snapshot are exactly the rows that do not start with the
  prefix, unchanged and in their order: every descendant at any depth is gone, every other
  path is kept.
\<close>

theorem deleteFolder_prefix:
  assumes "truthy branch" and "truthy folderPath" and "truthy userId"
    and "select_error e = None"
    and "resolveSnapshotId (db w) projectId branch = Some s"
    and "fk_snapshot_files (db w)"
  shows
    "(rows_under (folder_prefix (the folderPath)) (getFilesInSnapshot (db w) s) = [] \<longrightarrow>
        status (fst (deleteFolder e w projectId branch folderPath userId)) = 404 \<and>
        snd (deleteFolder e w projectId branch folderPath userId) = w) \<and>
     (rows_under (folder_prefix (the folderPath)) (getFilesInSnapshot (db w) s) \<noteq> [] \<and>
      write_error e = None \<and> gen_random_uuid e \<notin> set (map s_id (snapshots (db w))) \<longrightarrow>
        fst (deleteFolder e w projectId branch folderPath userId) =
          Response 200 (Deleted (gen_random_uuid e) (the folderPath)) \<and>
        getFilesInSnapshot (db (snd (deleteFolder e w projectId branch folderPath userId)))
            (gen_random_uuid e) =
          rows_outside (folder_prefix (the folderPath)) (getFilesInSnapshot (db w) s))"
proof (intro conjI impI)
  assume "rows_under (folder_prefix (the folderPath)) (getFilesInSnapshot (db w) s) = []"
  from deleteFolder_nothing_under [OF assms(1-5) this]
  show "status (fst (deleteFolder e w projectId branch folderPath userId)) = 404"
    and "snd (deleteFolder e w projectId branch folderPath userId) = w"
    by simp_all
next
  assume "rows_under (folder_prefix (the folderPath)) (getFilesInSnapshot (db w) s) \<noteq> [] \<and>
      write_error e = None \<and> gen_random_uuid e \<notin> set (map s_id (snapshots (db w)))"
  then obtain d1 where c: "createNewSnapshot e (db w) projectId (the userId)
                 (rows_outside (folder_prefix (the folderPath)) (getFilesInSnapshot (db w) s))
                 (''Delete folder: '' @ the folderPath) = Inr (gen_random_uuid e, d1)"
    and r: "deleteFolder e w projectId branch folderPath userId =
                (Response 200 (Deleted (gen_random_uuid e) (the folderPath)),
                 w\<lparr>db := updateBranchHead e d1 projectId (the branch) (gen_random_uuid e)\<rparr>)"
    using deleteFolder_something_under [OF assms(1-5)] by blast
  show "fst (deleteFolder e w projectId branch folderPath userId) =
          Response 200 (Deleted (gen_random_uuid e) (the folderPath))"
    by (simp add: r)
  show "getFilesInSnapshot (db (snd (deleteFolder e w projectId branch folderPath userId)))
            (gen_random_uuid e) =
          rows_outside (folder_prefix (the folderPath)) (getFilesInSnapshot (db w) s)"
    by (simp add: r getFiles_after_commit [OF assms(6) c])
qed

theorem deleteFolder_prefix_witness:
  "fst (deleteFolder (quiet_env ''s2'' 2) sample_world ''p1'' (Some ''main'') (Some ''a/b'')
          (Some ''u1'')) = Response 200 (Deleted ''s2'' ''a/b'') \<and>
   getFilesInSnapshot
     (db (snd (deleteFolder (quiet_env ''s2'' 2) sample_world ''p1'' (Some ''main'') (Some ''a/b'')
                 (Some ''u1'')))) ''s2'' =
     [\<lparr>path = ''README.md'', hash = ''h1'', fsize = 5, mode = 644\<rparr>,
      \<lparr>path = ''a/bc/e.txt'', hash = ''h3'', fsize = 9, mode = 644\<rparr>]"
proof -
  have pre: "folder_prefix ''a/b'' = ''a/b/''"
    by (simp add: folder_prefix_def endsWith_slash_def)
  have under: "rows_under ''a/b/'' sample_files \<noteq> []"
    by (simp add: rows_under_def sample_files_def)
  have outside: "rows_outside ''a/b/'' sample_files =
     [\<lparr>path = ''README.md'', hash = ''h1'', fsize = 5, mode = 644\<rparr>,
      \<lparr>path = ''a/bc/e.txt'', hash = ''h3'', fsize = 9, mode = 644\<rparr>]"
    by (simp add: rows_outside_def sample_files_def)
  show ?thesis
    using deleteFolder_prefix [of "Some ''main''" "Some ''a/b''" "Some ''u1''" "quiet_env ''s2'' 2"
        sample_world "''p1''" "''s1''"] under outside
    by (simp add: truthy_def sample_fk sample_ids pre)
qed

text \<open>
  The claim as it was stated takes the prefix to be the path followed by a slash, always.
  For the path \<^verbatim>\<open>a/b/\<close> no row of the sample snapshot starts with \<^verbatim>\<open>a/b//\<close>, so the claim has
  the call answer 404 and remove nothing; the handler answers 200 and removes the two rows
  under \<^verbatim>\<open>a/b/\<close>.
\<close>

theorem deleteFolder_prefix_counterexample:
  "rows_under (''a/b/'' @ ''/'') (getFilesInSnapshot (db sample_world) ''s1'') = [] \<and>
   fst (deleteFolder (quiet_env ''s2'' 2) sample_world ''p1'' (Some ''main'') (Some ''a/b/'')
          (Some ''u1'')) = Response 200 (Deleted ''s2'' ''a/b/'') \<and>
   getFilesInSnapshot
     (db (snd (deleteFolder (quiet_env ''s2'' 2) sample_world ''p1'' (Some ''main'')
                 (Some ''a/b/'') (Some ''u1'')))) ''s2'' =
     [\<lparr>path = ''README.md'', hash = ''h1'', fsize = 5, mode = 644\<rparr>,
      \<lparr>path = ''a/bc/e.txt'', hash = ''h3'', fsize = 9, mode = 644\<rparr>]"
proof -
  have pre: "folder_prefix ''a/b/'' = ''a/b/''"
    by (simp add: folder_prefix_def endsWith_slash_def)
  have none: "rows_under (''a/b/'' @ ''/'') sample_files = []"
    by (simp add: rows_under_def sample_files_def)
  have under: "rows_under (folder_prefix (the (Some ''a/b/''))) (getFilesInSnapshot (db sample_world) ''s1'') \<noteq> []"
    by (simp add: pre rows_under_def sample_files_def)
  have outside: "rows_outside ''a/b/'' sample_files =
     [\<lparr>path = ''README.md'', hash = ''h1'', fsize = 5, mode = 644\<rparr>,
      \<lparr>path = ''a/bc/e.txt'', hash = ''h3'', fsize = 9, mode = 644\<rparr>]"
    by (simp add: rows_outside_def sample_files_def)
  obtain d1 where c: "createNewSnapshot (quiet_env ''s2'' 2) (db sample_world) ''p1'' (the (Some ''u1''))
                 (rows_outside (folder_prefix (the (Some ''a/b/''))) (getFilesInSnapshot (db sample_world) ''s1''))
                 (''Delete folder: '' @ the (Some ''a/b/'')) = Inr (gen_random_uuid (quiet_env ''s2'' 2), d1)"
    and r: "deleteFolder (quiet_env ''s2'' 2) sample_world ''p1'' (Some ''main'') (Some ''a/b/'') (Some ''u1'') =
                (Response 200 (Deleted (gen_random_uuid (quiet_env ''s2'' 2)) (the (Some ''a/b/''))),
                 sample_world\<lparr>db := updateBranchHead (quiet_env ''s2'' 2) d1 ''p1'' (the (Some ''main'')) (gen_random_uuid (quiet_env ''s2'' 2))\<rparr>)"
    using deleteFolder_something_under [of "Some ''main''" "Some ''a/b/''" "Some ''u1''"
        "quiet_env ''s2'' 2" sample_world "''p1''" "''s1''", OF _ _ _ _ _ under]
    by (auto simp: truthy_def sample_ids)
  show ?thesis
    using none outside
    by (simp add: r getFiles_after_commit [OF sample_fk c] pre)
qed

subsection \<open>Reading back a file that was just created\<close>

text \<open>
  C1.  The round trip of the interactive edit path does not hold on the code.  \<^verbatim>\<open>createFile\<close>
  stores the content under \<^verbatim>\<open>${projectId}/${hash}\<close>; \<^verbatim>\<open>getBlob\<close> asks the blob store for
  \<^verbatim>\<open>${projectId}/${snapshotId}/${hash}\<close>, a different key.  So after a successful
  \<^verbatim>\<open>createFile\<close> on an existing branch, in a world whose bucket holds nothing under the
  second key, a \<^verbatim>\<open>getBlob\<close> of the same path with no failing read or download answers 200
  with the metadata of the new file (its hash is the SHA-256 of the decoded content), a null
  content and the message of a failed download.
\<close>

theorem getBlob_after_createFile:
  assumes "truthy branch" and "truthy filePath" and "content = Some c" and "truthy userId"
    and "select_error e = None" and "upload_error e = None" and "write_error e = None"
    and "gen_random_uuid e \<notin> set (map s_id (snapshots (db w)))"
    and "fk_snapshot_files (db w)"
    and "(projectId, the branch) \<in> set (map branch_key (branches (db w)))"
    and "storage w (projectId @ ''/'' @ gen_random_uuid e @ ''/'' @
                      sha256_hex L (base64_decode L c)) = None"
    and "select_error e' = None" and "download_error e' = None"
  shows "getBlob L e' (snd (createFile L e w projectId branch filePath content userId))
           projectId branch filePath =
         Response 200 (BlobBody
           \<lparr>blob_path = the filePath, blob_hash = sha256_hex L (base64_decode L c),
            blob_size = length (base64_decode L c), blob_mode = 644, blob_content = None,
            blob_mime = (case mime_lookup L (the filePath) of
                           None \<Rightarrow> ''application/octet-stream'' | Some m \<Rightarrow> m),
            blob_message = Some ''Could not download file content: Object not found''\<rparr>)"
proof -
  let ?new = "\<lparr>path = the filePath, hash = sha256_hex L (base64_decode L c),
                fsize = length (base64_decode L c), mode = 644\<rparr>"
  let ?i = "gen_random_uuid e"
  obtain d1 where c: "createNewSnapshot e (db w) projectId (the userId)
                 (filter (\<lambda>f. path f \<noteq> the filePath) (current_files (db w) projectId branch) @ [?new])
                 (''Create file: '' @ the filePath) = Inr (?i, d1)"
    and r: "createFile L e w projectId branch filePath content userId =
                (Response 201 (FileCreated ?i ?new),
                 \<lparr>db = updateBranchHead e d1 projectId (the branch) ?i,
                  storage = (storage w)(projectId @ ''/'' @ sha256_hex L (base64_decode L c)
                                          \<mapsto> base64_decode L c)\<rparr>)"
    using createFile_commits [OF assms(1-8)] by blast
  from assms(1) obtain b where b: "branch = Some b" "b \<noteq> []"
    by (auto simp: truthy_def split: option.splits)
  from assms(2) obtain fp where fp: "filePath = Some fp"
    by (auto simp: truthy_def split: option.splits)
  have keys: "(projectId, b) \<in> set (map branch_key (branches d1))"
    using assms(10) b createNewSnapshot_Inr(6) [OF c] by simp
  have res: "resolveSnapshotId (updateBranchHead e d1 projectId b ?i) projectId (Some b) = Some ?i"
    using keys b(2) by (rule resolve_after_update)
  have row: "find (\<lambda>r. sf_snapshot_id r = ?i \<and> path (sf_file r) = fp)
           (snapshot_files (updateBranchHead e d1 projectId b ?i)) = Some \<lparr>sf_snapshot_id = ?i, sf_file = ?new\<rparr>"
    using find_new_row [OF assms(9) c] fp by simp
  have dl: "download e' ((storage w)(projectId @ ''/'' @ sha256_hex L (base64_decode L c)
                                          \<mapsto> base64_decode L c))
              (projectId @ ''/'' @ ?i @ ''/'' @ sha256_hex L (base64_decode L c)) = Inl ''Object not found''"
    using assms(11,13) blob_keys_differ [of projectId "sha256_hex L (base64_decode L c)" ?i]
    by (simp add: download_def)
  show ?thesis
    unfolding r using res row dl assms(12) b fp
    by (simp add: getBlob_def Let_def)
qed

theorem getBlob_after_createFile_witness:
  "\<forall>L. getBlob L (quiet_env ''s9'' 2)
          (snd (createFile L (quiet_env ''s1'' 1) fresh_world ''p1'' (Some ''main'')
                  (Some ''README.md'') (Some ''aGVsbG8='') (Some ''u1'')))
          ''p1'' (Some ''main'') (Some ''README.md'') =
        Response 200 (BlobBody
          \<lparr>blob_path = ''README.md'', blob_hash = sha256_hex L (base64_decode L ''aGVsbG8=''),
           blob_size = length (base64_decode L ''aGVsbG8=''), blob_mode = 644,
           blob_content = None,
           blob_mime = (case mime_lookup L ''README.md'' of
                          None \<Rightarrow> ''application/octet-stream'' | Some m \<Rightarrow> m),
           blob_message = Some ''Could not download file content: Object not found''\<rparr>)"
proof
  fix L
  show "getBlob L (quiet_env ''s9'' 2)
          (snd (createFile L (quiet_env ''s1'' 1) fresh_world ''p1'' (Some ''main'')
                  (Some ''README.md'') (Some ''aGVsbG8='') (Some ''u1'')))
          ''p1'' (Some ''main'') (Some ''README.md'') =
        Response 200 (BlobBody
          \<lparr>blob_path = ''README.md'', blob_hash = sha256_hex L (base64_decode L ''aGVsbG8=''),
           blob_size = length (base64_decode L ''aGVsbG8=''), blob_mode = 644,
           blob_content = None,
           blob_mime = (case mime_lookup L ''README.md'' of
                          None \<Rightarrow> ''application/octet-stream'' | Some m \<Rightarrow> m),
           blob_message = Some ''Could not download file content: Object not found''\<rparr>)"
    using getBlob_after_createFile [of "Some ''main''" "Some ''README.md''" "Some ''aGVsbG8=''"
        "''aGVsbG8=''" "Some ''u1''" "quiet_env ''s1'' 1" fresh_world "''p1''" L "quiet_env ''s9'' 2"]
    by (simp add: truthy_def fresh_world_facts)
qed

subsection \<open>A folder is created even when its placeholder cannot be stored\<close>



subsection \<open>Sequences of mutations\<close>

lemma set_next_files: "set (next_files L m files) = described_delta L m (set files)"
  by (cases m) (auto simp: rows_outside_def)

lemma distinct_next_files:
  "is_create m \<Longrightarrow> distinct (map path files) \<Longrightarrow> distinct (map path (next_files L m files))"
  by (cases m) (auto simp: distinct_map_filter)

lemma hd_insort_key:
  "hd (insort_key f y zs) = (if zs = [] \<or> f y \<le> f (hd zs) then y else hd zs)"
  by (cases zs) auto

lemma insort_key_not_Nil: "insort_key f y zs \<noteq> []"
  by (cases zs) auto

lemma sort_key_Nil_iff: "sort_key f ys = [] \<longleftrightarrow> ys = []"
  by (metis set_sort set_empty)

lemma hd_sort_key_snoc_aux:
  "hd (foldr (insort_key f) ys [x]) =
     (if \<forall>z\<in>set ys. f x < f z then x else hd (sort_key f ys))"
proof (induction ys)
  case Nil
  then show ?case by simp
next
  case (Cons y ys)
  let ?A = "foldr (insort_key f) ys [x]"
  let ?B = "sort_key f ys"
  have A: "?A \<noteq> []" by (cases ys) (simp_all add: insort_key_not_Nil)
  show ?case
  proof (cases "\<forall>z\<in>set ys. f x < f z")
    case True
    with Cons.IH have hA: "hd ?A = x" by simp
    have hB: "?B = [] \<or> f x < f (hd ?B)"
    proof (cases "?B = []")
      case False
      then have "hd ?B \<in> set ?B" by (rule hd_in_set)
      then have "hd ?B \<in> set ys" by simp
      with True show ?thesis by blast
    qed simp
    show ?thesis
      using A hA hB True by (auto simp: hd_insort_key sort_key_def [symmetric])
  next
    case False
    with Cons.IH have hA: "hd ?A = hd ?B" by simp
    from False have "ys \<noteq> []" by auto
    then have B: "?B \<noteq> []" by (simp add: sort_key_Nil_iff)
    show ?thesis
      using A B hA False by (auto simp: hd_insort_key sort_key_def [symmetric])
  qed
qed

lemma hd_sort_key_snoc:
  "hd (sort_key f (ys @ [x])) = x \<or> (ys \<noteq> [] \<and> hd (sort_key f (ys @ [x])) = hd (sort_key f ys))"
proof -
  have "sort_key f (ys @ [x]) = foldr (insort_key f) ys [x]"
    by (simp add: sort_key_def)
  then show ?thesis
    using hd_sort_key_snoc_aux [of f ys x] by (cases ys) auto
qed

lemma latest_as_hd:
  "latest_project_snapshot d p =
     (if filter (\<lambda>s. s_project_id s = p) (snapshots d) = [] then None
      else Some (hd (sort_key (\<lambda>s. - s_timestamp s) (filter (\<lambda>s. s_project_id s = p) (snapshots d)))))"
  by (auto simp: latest_project_snapshot_def sort_key_Nil_iff split: list.splits)

lemma latest_after_insert:
  assumes "snapshots d1 = snapshots d @ [x]"
  shows "latest_project_snapshot d1 p = Some x \<or>
         latest_project_snapshot d1 p = latest_project_snapshot d p"
proof (cases "s_project_id x = p")
  case True
  then show ?thesis
    using hd_sort_key_snoc [of "\<lambda>s. - s_timestamp s" "filter (\<lambda>s. s_project_id s = p) (snapshots d)" x]
    by (auto simp: latest_as_hd assms)
next
  case False
  then show ?thesis by (simp add: latest_as_hd assms)
qed

lemma resolve_after_commit:
  assumes "createNewSnapshot e d p' u files title = Inr (i, d1)"
  shows "resolveSnapshotId (updateBranchHead e' d1 p b i) p (Some b) = Some i \<or>
         resolveSnapshotId (updateBranchHead e' d1 p b i) p (Some b) =
         resolveSnapshotId d p (Some b)"
proof -
  let ?d2 = "updateBranchHead e' d1 p b i"
  have sn: "snapshots ?d2 = snapshots d @
        [\<lparr>s_id = i, s_project_id = p', s_user_id = u, s_title = title,
          s_description = None, s_timestamp = now_snapshot e, s_file_count = length files,
          s_external_id = None\<rparr>]"
    by (simp add: updateBranchHead_tables createNewSnapshot_Inr(4) [OF assms])
  have br: "branches d1 = branches d"
    by (rule createNewSnapshot_Inr(6) [OF assms])
  have latest: "map_option s_id (latest_project_snapshot ?d2 p) = Some i \<or>
                map_option s_id (latest_project_snapshot ?d2 p) =
                map_option s_id (latest_project_snapshot d p)"
    using latest_after_insert [OF sn, of p] by auto
  show ?thesis
  proof (cases "b = []")
    case True
    with latest show ?thesis by (simp add: resolveSnapshotId_def Let_def)
  next
    case False
    show ?thesis
    proof (cases "find (\<lambda>r. b_project_id r = p \<and> b_name r = b) (branches d)")
      case None
      then have "find (\<lambda>r. b_project_id r = p \<and> b_name r = b) (branches ?d2) = None"
        by (simp add: updateBranchHead_def br find_after_update)
      with None latest False show ?thesis
        by (simp add: resolveSnapshotId_def Let_def)
    next
      case found: (Some r)
      then have "r \<in> set (branches d)" and "b_project_id r = p \<and> b_name r = b"
        by (auto simp: find_Some_iff)
      then have "(p, b) \<in> set (map branch_key (branches d1))"
        by (auto simp: br branch_key_def image_iff)
      then have "resolveSnapshotId ?d2 p (Some b) = Some i"
        using False by (rule resolve_after_update)
      then show ?thesis by simp
    qed
  qed
qed

lemma createFile_outcome:
  "(\<exists>d1 title. b \<noteq> [] \<and>
      createNewSnapshot e (db w) p u
        (next_files L (CreateFile fp c) (current_files (db w) p (Some b))) title =
        Inr (gen_random_uuid e, d1) \<and>
      status (fst (createFile L e w p (Some b) (Some fp) (Some c) (Some u))) = 201 \<and>
      created_id (fst (createFile L e w p (Some b) (Some fp) (Some c) (Some u))) =
        Some (gen_random_uuid e) \<and>
      db (snd (createFile L e w p (Some b) (Some fp) (Some c) (Some u))) =
        updateBranchHead e d1 p b (gen_random_uuid e)) \<or>
   (status (fst (createFile L e w p (Some b) (Some fp) (Some c) (Some u))) \<notin> {200, 201} \<and>
    created_id (fst (createFile L e w p (Some b) (Some fp) (Some c) (Some u))) = None \<and>
    db (snd (createFile L e w p (Some b) (Some fp) (Some c) (Some u))) = db w)"
  by (auto simp: createFile_def Let_def truthy_def current_files_def upload_def server_error_def
        created_id_def dest: createNewSnapshot_Inr(1)
        split: option.splits sum.splits)

lemma createFolder_outcome:
  "(\<exists>d1 title. b \<noteq> [] \<and>
      createNewSnapshot e (db w) p u
        (next_files L (CreateFolder fp) (current_files (db w) p (Some b))) title =
        Inr (gen_random_uuid e, d1) \<and>
      status (fst (createFolder L e w p (Some b) (Some fp) (Some u))) = 201 \<and>
      created_id (fst (createFolder L e w p (Some b) (Some fp) (Some u))) =
        Some (gen_random_uuid e) \<and>
      db (snd (createFolder L e w p (Some b) (Some fp) (Some u))) =
        updateBranchHead e d1 p b (gen_random_uuid e)) \<or>
   (status (fst (createFolder L e w p (Some b) (Some fp) (Some u))) \<notin> {200, 201} \<and>
    created_id (fst (createFolder L e w p (Some b) (Some fp) (Some u))) = None \<and>
    db (snd (createFolder L e w p (Some b) (Some fp) (Some u))) = db w)"
  by (auto simp: createFolder_def Let_def truthy_def current_files_def upload_def server_error_def
        created_id_def dest: createNewSnapshot_Inr(1)
        split: option.splits sum.splits)

lemma deleteFile_outcome:
  "(\<exists>d1 title. b \<noteq> [] \<and>
      createNewSnapshot e (db w) p u
        (next_files L (DeleteFile fp) (current_files (db w) p (Some b))) title =
        Inr (gen_random_uuid e, d1) \<and>
      status (fst (deleteFile e w p (Some b) (Some fp) (Some u))) = 200 \<and>
      created_id (fst (deleteFile e w p (Some b) (Some fp) (Some u))) =
        Some (gen_random_uuid e) \<and>
      db (snd (deleteFile e w p (Some b) (Some fp) (Some u))) =
        updateBranchHead e d1 p b (gen_random_uuid e)) \<or>
   (status (fst (deleteFile e w p (Some b) (Some fp) (Some u))) \<notin> {200, 201} \<and>
    created_id (fst (deleteFile e w p (Some b) (Some fp) (Some u))) = None \<and>
    db (snd (deleteFile e w p (Some b) (Some fp) (Some u))) = db w)"
  by (auto simp: deleteFile_def Let_def truthy_def current_files_def
        created_id_def dest: createNewSnapshot_Inr(1)
        split: option.splits sum.splits)

lemma deleteFolder_outcome:
  "(\<exists>d1 title. b \<noteq> [] \<and>
      createNewSnapshot e (db w) p u
        (next_files L (DeleteFolder fp) (current_files (db w) p (Some b))) title =
        Inr (gen_random_uuid e, d1) \<and>
      status (fst (deleteFolder e w p (Some b) (Some fp) (Some u))) = 200 \<and>
      created_id (fst (deleteFolder e w p (Some b) (Some fp) (Some u))) =
        Some (gen_random_uuid e) \<and>
      db (snd (deleteFolder e w p (Some b) (Some fp) (Some u))) =
        updateBranchHead e d1 p b (gen_random_uuid e)) \<or>
   (status (fst (deleteFolder e w p (Some b) (Some fp) (Some u))) \<notin> {200, 201} \<and>
    created_id (fst (deleteFolder e w p (Some b) (Some fp) (Some u))) = None \<and>
    db (snd (deleteFolder e w p (Some b) (Some fp) (Some u))) = db w)"
  by (auto simp: deleteFolder_def Let_def truthy_def current_files_def folder_prefix_def
        rows_outside_def created_id_def dest: createNewSnapshot_Inr(1)
        split: option.splits sum.splits)

lemma apply_mutation_outcome:
  "(\<exists>d1 title. b \<noteq> [] \<and>
      createNewSnapshot e (db w) p u
        (next_files L m (current_files (db w) p (Some b))) title =
        Inr (gen_random_uuid e, d1) \<and>
      status (fst (apply_mutation L p b u e m w)) \<in> {200, 201} \<and>
      created_id (fst (apply_mutation L p b u e m w)) = Some (gen_random_uuid e) \<and>
      db (snd (apply_mutation L p b u e m w)) = updateBranchHead e d1 p b (gen_random_uuid e)) \<or>
   (status (fst (apply_mutation L p b u e m w)) \<notin> {200, 201} \<and>
    created_id (fst (apply_mutation L p b u e m w)) = None \<and>
    db (snd (apply_mutation L p b u e m w)) = db w)"
proof (cases m)
  case (CreateFile fp c)
  show ?thesis
    unfolding CreateFile apply_mutation_def mutation.case
    using createFile_outcome [of b e w p u L fp c] by blast
next
  case (CreateFolder fp)
  show ?thesis
    unfolding CreateFolder apply_mutation_def mutation.case
    using createFolder_outcome [of b e w p u L fp] by blast
next
  case (DeleteFile fp)
  show ?thesis
    unfolding DeleteFile apply_mutation_def mutation.case
    using deleteFile_outcome [of b e w p u L fp] by blast
next
  case (DeleteFolder fp)
  show ?thesis
    unfolding DeleteFolder apply_mutation_def mutation.case
    using deleteFolder_outcome [of b e w p u L fp] by blast
qed

lemma run_member:
  assumes "I w0"
    and "\<And>e m w. (e, m) \<in> set steps \<Longrightarrow> I w \<Longrightarrow> I (snd (apply_mutation L p b u e m w))"
    and "(w, m, r, w') \<in> set (run L p b u steps w0)"
  shows "I w \<and> (\<exists>e. (e, m) \<in> set steps \<and> r = fst (apply_mutation L p b u e m w) \<and>
                       w' = snd (apply_mutation L p b u e m w))"
  using assms
proof (induction steps arbitrary: w0)
  case Nil
  then show ?case by simp
next
  case (Cons step steps)
  obtain e0 m0 where step: "step = (e0, m0)" by (cases step)
  from Cons.prems(3) have
    "(w, m, r, w') = (w0, m0, fst (apply_mutation L p b u e0 m0 w0),
                      snd (apply_mutation L p b u e0 m0 w0)) \<or>
     (w, m, r, w') \<in> set (run L p b u steps (snd (apply_mutation L p b u e0 m0 w0)))"
    unfolding step run.simps set_simps insert_iff .
  then consider
      (here) "w = w0" "m = m0" "r = fst (apply_mutation L p b u e0 m0 w0)"
        "w' = snd (apply_mutation L p b u e0 m0 w0)"
    | (later) "(w, m, r, w') \<in> set (run L p b u steps (snd (apply_mutation L p b u e0 m0 w0)))"
    unfolding prod.inject by blast
  then show ?case
  proof cases
    case here
    with Cons.prems(1) show ?thesis by (auto simp: step)
  next
    case later
    have "I (snd (apply_mutation L p b u e0 m0 w0))"
      using Cons.prems(1,2) by (simp add: step)
    from Cons.IH [OF this _ later] Cons.prems(2) show ?thesis by auto
  qed
qed

lemma current_files_None:
  "resolveSnapshotId d p br = None \<Longrightarrow> current_files d p br = []"
  by (simp add: current_files_def)

lemma current_files_by_head:
  assumes "b \<noteq> []"
  shows "current_files d p (Some b) =
     (case branch_head d p b of
        Some h \<Rightarrow> getFilesInSnapshot d h
      | None \<Rightarrow> (case latest_project_snapshot d p of
                   None \<Rightarrow> []
                 | Some s \<Rightarrow> getFilesInSnapshot d (s_id s)))"
  using assms
  by (auto simp: current_files_def resolveSnapshotId_def branch_head_def Let_def
        split: option.splits)

lemma branch_known_step:
  assumes "branch_known p b w"
  shows "branch_known p b (snd (apply_mutation L p b u e m w))"
  using apply_mutation_outcome [of b e w p u L m]
proof (elim disjE exE conjE)
  fix d1 title
  assume c: "createNewSnapshot e (db w) p u
        (next_files L m (current_files (db w) p (Some b))) title = Inr (gen_random_uuid e, d1)"
    and d: "db (snd (apply_mutation L p b u e m w)) = updateBranchHead e d1 p b (gen_random_uuid e)"
  have "fk_snapshot_files (updateBranchHead e d1 p b (gen_random_uuid e))"
    using assms fk_after_commit [OF _ c] by (simp add: branch_known_def)
  moreover have "map branch_key (branches (updateBranchHead e d1 p b (gen_random_uuid e))) =
                 map branch_key (branches (db w))"
    by (simp add: updateBranchHead_tables createNewSnapshot_Inr(6) [OF c])
  ultimately show ?thesis
    using assms unfolding branch_known_def d by simp
next
  assume "db (snd (apply_mutation L p b u e m w)) = db w"
  with assms show ?thesis by (simp add: branch_known_def)
qed

lemma first_create_on_fresh_world:
  "db (snd (apply_mutation L ''p1'' ''main'' ''u1'' (quiet_env ''s1'' 1) (CreateFile fp c) fresh_world)) =
     \<lparr>snapshots =
        [\<lparr>s_id = ''s1'', s_project_id = ''p1'', s_user_id = ''u1'',
          s_title = ''Create file: '' @ fp, s_description = None, s_timestamp = 1,
          s_file_count = 1, s_external_id = None\<rparr>],
      snapshot_files =
        [\<lparr>sf_snapshot_id = ''s1'',
          sf_file = \<lparr>path = fp, hash = sha256_hex L (base64_decode L c),
                     fsize = length (base64_decode L c), mode = 644\<rparr>\<rparr>],
      branches =
        [\<lparr>b_project_id = ''p1'', b_name = ''main'', b_head_snapshot_id = Some ''s1'',
          b_updated_at = 1\<rparr>]\<rparr>"
  if "fp \<noteq> []"
  using that
  by (simp add: apply_mutation_def createFile_def Let_def truthy_def upload_def
        resolveSnapshotId_def latest_project_snapshot_def createNewSnapshot_def
        updateBranchHead_def fresh_world_def)

lemma deleteFile_commits:
  assumes "truthy branch" and "truthy filePath" and "truthy userId"
    and "select_error e = None"
    and "resolveSnapshotId (db w) projectId branch = Some s"
    and "the filePath \<in> set (map path (getFilesInSnapshot (db w) s))"
    and "write_error e = None" and "gen_random_uuid e \<notin> set (map s_id (snapshots (db w)))"
  shows "\<exists>d1. createNewSnapshot e (db w) projectId (the userId)
                 (filter (\<lambda>f. path f \<noteq> the filePath) (getFilesInSnapshot (db w) s))
                 (''Delete file: '' @ the filePath) = Inr (gen_random_uuid e, d1) \<and>
              deleteFile e w projectId branch filePath userId =
                (Response 200 (Deleted (gen_random_uuid e) (the filePath)),
                 w\<lparr>db := updateBranchHead e d1 projectId (the branch) (gen_random_uuid e)\<rparr>)"
proof -
  let ?kept = "filter (\<lambda>f. path f \<noteq> the filePath) (getFilesInSnapshot (db w) s)"
  obtain d1 where c: "createNewSnapshot e (db w) projectId (the userId) ?kept
        (''Delete file: '' @ the filePath) = Inr (gen_random_uuid e, d1)"
    using createNewSnapshot_succeeds [OF assms(7,8)] by blast
  have neq: "length (getFilesInSnapshot (db w) s) \<noteq> length ?kept"
    using assms(6) unfolding filter_keeps_length_iff by auto
  have "deleteFile e w projectId branch filePath userId =
       (Response 200 (Deleted (gen_random_uuid e) (the filePath)),
        w\<lparr>db := updateBranchHead e d1 projectId (the branch) (gen_random_uuid e)\<rparr>)"
    using assms(1-5) neq c by (simp add: deleteFile_def Let_def)
  with c show ?thesis by blast
qed

text \<open>
  C3, as amended.  Let every file row belong to a snapshot row and let the branch have a row
  in \<^verbatim>\<open>branches\<close>.  Apply any sequence of mutations (\<^verbatim>\<open>createFile\<close>, \<^verbatim>\<open>createFolder\<close>,
  \<^verbatim>\<open>deleteFile\<close>, \<^verbatim>\<open>deleteFolder\<close>) one at a time to the branch.  After each mutation that
  answers 200 or 201 the answer names a snapshot that did not exist before and exists now,
  the head of the branch is that snapshot, and its file set is the file set the mutation
  started from with the described change applied.  The file set a mutation starts from is
  that of the head of the branch before it (when the head is null: that of
  \<^verbatim>\<open>latest_project_snapshot\<close>, or no file).
\<close>

theorem sequential_mutations:
  assumes "fk_snapshot_files (db w0)"
    and "(projectId, b) \<in> set (map branch_key (branches (db w0)))"
    and "(w, m, r, w') \<in> set (run L projectId b userId steps w0)"
    and "status r = 200 \<or> status r = 201"
  shows "\<exists>i. created_id r = Some i \<and>
             i \<notin> set (map s_id (snapshots (db w))) \<and>
             i \<in> set (map s_id (snapshots (db w'))) \<and>
             branch_head (db w') projectId b = Some i \<and>
             set (getFilesInSnapshot (db w') i) =
               described_delta L m (set (current_files (db w) projectId (Some b))) \<and>
             current_files (db w) projectId (Some b) =
               (case branch_head (db w) projectId b of
                  Some h \<Rightarrow> getFilesInSnapshot (db w) h
                | None \<Rightarrow> (case latest_project_snapshot (db w) projectId of
                             None \<Rightarrow> []
                           | Some s \<Rightarrow> getFilesInSnapshot (db w) (s_id s)))"
proof -
  have "branch_known projectId b w0"
    using assms(1,2) by (simp add: branch_known_def)
  from run_member [of "branch_known projectId b", OF this branch_known_step assms(3)]
  obtain e where known: "branch_known projectId b w"
    and r: "r = fst (apply_mutation L projectId b userId e m w)"
    and w': "w' = snd (apply_mutation L projectId b userId e m w)"
    by blast
  from apply_mutation_outcome [of b e w projectId userId L m] assms(4)
  obtain d1 title where b: "b \<noteq> []"
    and c: "createNewSnapshot e (db w) projectId userId
        (next_files L m (current_files (db w) projectId (Some b))) title =
        Inr (gen_random_uuid e, d1)"
    and cr: "created_id r = Some (gen_random_uuid e)"
    and d: "db w' = updateBranchHead e d1 projectId b (gen_random_uuid e)"
    unfolding r w' by auto
  let ?i = "gen_random_uuid e"
  have fk: "fk_snapshot_files (db w)" using known by (simp add: branch_known_def)
  have keys: "(projectId, b) \<in> set (map branch_key (branches d1))"
    using known by (simp add: branch_known_def createNewSnapshot_Inr(6) [OF c])
  have 1: "?i \<notin> set (map s_id (snapshots (db w)))"
    by (rule createNewSnapshot_Inr(2) [OF c])
  have 2: "?i \<in> set (map s_id (snapshots (db w')))"
    by (simp add: d updateBranchHead_tables createNewSnapshot_Inr(4) [OF c])
  have 3: "branch_head (db w') projectId b = Some ?i"
    unfolding d using keys by (rule branch_head_after_update)
  have 4: "set (getFilesInSnapshot (db w') ?i) =
             described_delta L m (set (current_files (db w) projectId (Some b)))"
    by (simp add: d getFiles_after_commit [OF fk c] set_next_files)
  show ?thesis
    using cr 1 2 3 4 current_files_by_head [OF b] by blast
qed

theorem sequential_mutations_witness:
  "\<forall>L. \<exists>w r w'.
      (w, DeleteFile ''README.md'', r, w') \<in> set (run L ''p1'' ''main'' ''u1'' edit_steps fresh_world) \<and>
      branch_head (db w) ''p1'' ''main'' = Some ''s1'' \<and>
      status r = 200 \<and> created_id r = Some ''s2'' \<and>
      branch_head (db w') ''p1'' ''main'' = Some ''s2'' \<and>
      set (getFilesInSnapshot (db w') ''s2'') = {}"
proof
  fix L
  define w where "w = snd (apply_mutation L ''p1'' ''main'' ''u1'' (quiet_env ''s1'' 1)
                   (CreateFile ''README.md'' ''aGVsbG8='') fresh_world)"
  define r where "r = fst (apply_mutation L ''p1'' ''main'' ''u1'' (quiet_env ''s2'' 2)
                   (DeleteFile ''README.md'') w)"
  define w' where "w' = snd (apply_mutation L ''p1'' ''main'' ''u1'' (quiet_env ''s2'' 2)
                   (DeleteFile ''README.md'') w)"
  have dbw: "db w = \<lparr>snapshots =
        [\<lparr>s_id = ''s1'', s_project_id = ''p1'', s_user_id = ''u1'',
          s_title = ''Create file: '' @ ''README.md'', s_description = None, s_timestamp = 1,
          s_file_count = 1, s_external_id = None\<rparr>],
      snapshot_files =
        [\<lparr>sf_snapshot_id = ''s1'',
          sf_file = \<lparr>path = ''README.md'', hash = sha256_hex L (base64_decode L ''aGVsbG8=''),
                     fsize = length (base64_decode L ''aGVsbG8=''), mode = 644\<rparr>\<rparr>],
      branches =
        [\<lparr>b_project_id = ''p1'', b_name = ''main'', b_head_snapshot_id = Some ''s1'',
          b_updated_at = 1\<rparr>]\<rparr>"
    unfolding w_def by (rule first_create_on_fresh_world) simp
  have mem: "(w, DeleteFile ''README.md'', r, w') \<in>
               set (run L ''p1'' ''main'' ''u1'' edit_steps fresh_world)"
    by (simp add: edit_steps_def w_def r_def w'_def)
  have head: "branch_head (db w) ''p1'' ''main'' = Some ''s1''"
    by (simp add: dbw branch_head_def)
  have res: "resolveSnapshotId (db w) ''p1'' (Some ''main'') = Some ''s1''"
    by (simp add: dbw resolveSnapshotId_def)
  have files: "getFilesInSnapshot (db w) ''s1'' =
               [\<lparr>path = ''README.md'', hash = sha256_hex L (base64_decode L ''aGVsbG8=''),
                 fsize = length (base64_decode L ''aGVsbG8=''), mode = 644\<rparr>]"
    by (simp add: dbw getFilesInSnapshot_def)
  have ids: "s_id ` set (snapshots (db w)) = {''s1''}"
    by (simp add: dbw)
  have r: "r = Response 200 (Deleted ''s2'' ''README.md'')"
    using deleteFile_commits [of "Some ''main''" "Some ''README.md''" "Some ''u1''"
        "quiet_env ''s2'' 2" w "''p1''" "''s1''"] res
    by (auto simp: r_def apply_mutation_def truthy_def files ids)
  have "\<exists>i. created_id r = Some i \<and>
             i \<notin> set (map s_id (snapshots (db w))) \<and>
             i \<in> set (map s_id (snapshots (db w'))) \<and>
             branch_head (db w') ''p1'' ''main'' = Some i \<and>
             set (getFilesInSnapshot (db w') i) =
               described_delta L (DeleteFile ''README.md'')
                 (set (current_files (db w) ''p1'' (Some ''main''))) \<and>
             current_files (db w) ''p1'' (Some ''main'') =
               (case branch_head (db w) ''p1'' ''main'' of
                  Some h \<Rightarrow> getFilesInSnapshot (db w) h
                | None \<Rightarrow> (case latest_project_snapshot (db w) ''p1'' of
                             None \<Rightarrow> []
                           | Some s \<Rightarrow> getFilesInSnapshot (db w) (s_id s)))"
    by (rule sequential_mutations [OF fresh_world_facts(1) _ mem])
       (simp_all add: fresh_world_facts r)
  then have "branch_head (db w') ''p1'' ''main'' = Some ''s2'' \<and>
             set (getFilesInSnapshot (db w') ''s2'') = {}"
    by (auto simp: r created_id_def current_files_Some [OF res] files)
  with mem head r show "\<exists>w r w'.
      (w, DeleteFile ''README.md'', r, w') \<in> set (run L ''p1'' ''main'' ''u1'' edit_steps fresh_world) \<and>
      branch_head (db w) ''p1'' ''main'' = Some ''s1'' \<and>
      status r = 200 \<and> created_id r = Some ''s2'' \<and>
      branch_head (db w') ''p1'' ''main'' = Some ''s2'' \<and>
      set (getFilesInSnapshot (db w') ''s2'') = {}"
    by (intro exI [of _ w] exI [of _ r] exI [of _ w']) (simp add: created_id_def)
qed

lemma unbranched_world_facts:
  "resolveSnapshotId (db unbranched_world) ''p1'' (Some ''main'') = Some ''s1''"
  "getFilesInSnapshot (db unbranched_world) ''s1'' = sample_files"
  "s_id ` set (snapshots (db unbranched_world)) = {''s1''}"
  "branches (db unbranched_world) = []"
  by (simp_all add: resolveSnapshotId_def latest_project_snapshot_def getFilesInSnapshot_def
        unbranched_world_def sample_files_def)

text \<open>
  The claim as it was stated speaks of every branch a mutation is sent to.  A project whose
  branches were never listed has no row in \<^verbatim>\<open>branches\<close>, and \<^verbatim>\<open>updateBranchHead\<close> is an
  \<^verbatim>\<open>UPDATE\<close>: it moves the head of the rows it finds and inserts none.  On such a project
  \<^verbatim>\<open>deleteFile\<close> for the branch \<^verbatim>\<open>main\<close> resolves to the latest snapshot, answers 200 and
  creates the snapshot \<^verbatim>\<open>s2\<close>, and afterwards there is still no row for the branch: no head
  equals \<^verbatim>\<open>s2\<close>.
\<close>

theorem sequential_mutations_counterexample:
  "status (fst (deleteFile (quiet_env ''s2'' 2) unbranched_world ''p1'' (Some ''main'')
                  (Some ''README.md'') (Some ''u1''))) = 200 \<and>
   created_id (fst (deleteFile (quiet_env ''s2'' 2) unbranched_world ''p1'' (Some ''main'')
                      (Some ''README.md'') (Some ''u1''))) = Some ''s2'' \<and>
   ''s2'' \<in> set (map s_id (snapshots (db (snd (deleteFile (quiet_env ''s2'' 2) unbranched_world
                      ''p1'' (Some ''main'') (Some ''README.md'') (Some ''u1'')))))) \<and>
   branches (db (snd (deleteFile (quiet_env ''s2'' 2) unbranched_world ''p1'' (Some ''main'')
                       (Some ''README.md'') (Some ''u1'')))) = [] \<and>
   branch_head (db (snd (deleteFile (quiet_env ''s2'' 2) unbranched_world ''p1'' (Some ''main'')
                          (Some ''README.md'') (Some ''u1'')))) ''p1'' ''main'' = None"
proof -
  obtain d1 where c: "createNewSnapshot (quiet_env ''s2'' 2) (db unbranched_world) ''p1''
        (the (Some ''u1''))
        (filter (\<lambda>f. path f \<noteq> the (Some ''README.md''))
           (getFilesInSnapshot (db unbranched_world) ''s1''))
        (''Delete file: '' @ the (Some ''README.md'')) = Inr (gen_random_uuid (quiet_env ''s2'' 2), d1)"
    and r: "deleteFile (quiet_env ''s2'' 2) unbranched_world ''p1'' (Some ''main'')
              (Some ''README.md'') (Some ''u1'') =
            (Response 200 (Deleted (gen_random_uuid (quiet_env ''s2'' 2)) (the (Some ''README.md''))),
             unbranched_world\<lparr>db := updateBranchHead (quiet_env ''s2'' 2) d1 ''p1''
                                        (the (Some ''main'')) (gen_random_uuid (quiet_env ''s2'' 2))\<rparr>)"
    using deleteFile_commits [of "Some ''main''" "Some ''README.md''" "Some ''u1''"
        "quiet_env ''s2'' 2" unbranched_world "''p1''" "''s1''"]
    by (auto simp: truthy_def unbranched_world_facts sample_files_def)
  have br: "branches (updateBranchHead (quiet_env ''s2'' 2) d1 ''p1'' ''main'' ''s2'') = []"
    by (simp add: updateBranchHead_def createNewSnapshot_Inr(6) [OF c] unbranched_world_facts)
  have sn: "''s2'' \<in> s_id ` set (snapshots (updateBranchHead (quiet_env ''s2'' 2) d1 ''p1'' ''main'' ''s2''))"
    using createNewSnapshot_Inr(4) [OF c] by (simp add: updateBranchHead_tables)
  show ?thesis
    using br sn by (simp add: r created_id_def branch_head_def)
qed

lemma paths_distinct_step:
  assumes "paths_distinct p b w" and "is_create m"
  shows "paths_distinct p b (snd (apply_mutation L p b u e m w))"
  using apply_mutation_outcome [of b e w p u L m]
proof (elim disjE exE conjE)
  fix d1 title
  let ?i = "gen_random_uuid e"
  let ?new = "next_files L m (current_files (db w) p (Some b))"
  assume c: "createNewSnapshot e (db w) p u ?new title = Inr (?i, d1)"
    and d: "db (snd (apply_mutation L p b u e m w)) = updateBranchHead e d1 p b ?i"
  have fk: "fk_snapshot_files (db w)" using assms(1) by (simp add: paths_distinct_def)
  have new: "distinct (map path ?new)"
    using assms by (simp add: paths_distinct_def distinct_next_files)
  have files: "getFilesInSnapshot (updateBranchHead e d1 p b ?i) k =
                 (if k = ?i then ?new else getFilesInSnapshot (db w) k)" for k
    by (rule getFiles_after_commit [OF fk c])
  have "distinct (map path (current_files (updateBranchHead e d1 p b ?i) p (Some b)))"
  proof (cases "resolveSnapshotId (updateBranchHead e d1 p b ?i) p (Some b) = Some ?i")
    case True
    then have "current_files (updateBranchHead e d1 p b ?i) p (Some b) = ?new"
      by (simp add: current_files_Some files)
    with new show ?thesis by simp
  next
    case False
    with resolve_after_commit [OF c, of e p b]
    have same: "resolveSnapshotId (updateBranchHead e d1 p b ?i) p (Some b) =
                resolveSnapshotId (db w) p (Some b)" by blast
    show ?thesis
    proof (cases "resolveSnapshotId (db w) p (Some b)")
      case None
      with same have "current_files (updateBranchHead e d1 p b ?i) p (Some b) = []"
        by (simp add: current_files_None)
      then show ?thesis by simp
    next
      case (Some k)
      with assms(1) have old: "distinct (map path (getFilesInSnapshot (db w) k))"
        by (simp add: paths_distinct_def current_files_Some)
      from same Some
      have "current_files (updateBranchHead e d1 p b ?i) p (Some b) =
              (if k = ?i then ?new else getFilesInSnapshot (db w) k)"
        by (simp add: current_files_Some files)
      with old new show ?thesis by simp
    qed
  qed
  then show ?thesis
    unfolding paths_distinct_def d using fk_after_commit [OF fk c] by simp
next
  assume "db (snd (apply_mutation L p b u e m w)) = db w"
  with assms(1) show ?thesis by (simp add: paths_distinct_def)
qed

text \<open>
  C6.  Let every file row belong to a snapshot row, and let the files the branch resolves
  to at the start have pairwise different paths (no file at all in a fresh project).  After
  any sequence of \<^verbatim>\<open>createFile\<close> and \<^verbatim>\<open>createFolder\<close> requests on the branch, every snapshot
  one of them created has file rows of pairwise different paths.
\<close>

theorem path_uniqueness:
  assumes "fk_snapshot_files (db w0)"
    and "distinct (map path (current_files (db w0) projectId (Some b)))"
    and "list_all (\<lambda>step. is_create (snd step)) steps"
    and "(w, m, r, w') \<in> set (run L projectId b userId steps w0)"
    and "created_id r = Some i"
  shows "distinct (map path (getFilesInSnapshot (db w') i))"
proof -
  have start: "paths_distinct projectId b w0"
    using assms(1,2) by (simp add: paths_distinct_def)
  have step: "paths_distinct projectId b (snd (apply_mutation L projectId b userId e m w))"
    if "(e, m) \<in> set steps" and "paths_distinct projectId b w" for e m w
  proof -
    from that(1) assms(3) have "is_create m" by (auto simp: list_all_iff)
    with that(2) show ?thesis by (rule paths_distinct_step)
  qed
  from run_member [of "paths_distinct projectId b", OF start step assms(4)]
  obtain e where inv: "paths_distinct projectId b w" and mem: "(e, m) \<in> set steps"
    and r: "r = fst (apply_mutation L projectId b userId e m w)"
    and w': "w' = snd (apply_mutation L projectId b userId e m w)"
    by blast
  from mem assms(3) have create: "is_create m" by (auto simp: list_all_iff)
  from apply_mutation_outcome [of b e w projectId userId L m] assms(5)
  obtain d1 title where
    c: "createNewSnapshot e (db w) projectId userId
        (next_files L m (current_files (db w) projectId (Some b))) title =
        Inr (gen_random_uuid e, d1)"
    and cr: "created_id r = Some (gen_random_uuid e)"
    and d: "db w' = updateBranchHead e d1 projectId b (gen_random_uuid e)"
    unfolding r w' by auto
  from cr assms(5) have i: "i = gen_random_uuid e" by simp
  have fk: "fk_snapshot_files (db w)" using inv by (simp add: paths_distinct_def)
  have "distinct (map path (next_files L m (current_files (db w) projectId (Some b))))"
    using inv create by (simp add: paths_distinct_def distinct_next_files)
  then show ?thesis
    by (simp add: i d getFiles_after_commit [OF fk c])
qed

theorem path_uniqueness_witness:
  "\<forall>L. \<exists>w r w'.
      (w, CreateFile ''a.txt'' ''Yg=='', r, w') \<in>
        set (run L ''p1'' ''main'' ''u1'' update_steps fresh_world) \<and>
      map path (current_files (db w) ''p1'' (Some ''main'')) = [''a.txt''] \<and>
      created_id r = Some ''s2'' \<and>
      map path (getFilesInSnapshot (db w') ''s2'') = [''a.txt''] \<and>
      distinct (map path (getFilesInSnapshot (db w') ''s2''))"
proof
  fix L
  define w where "w = snd (apply_mutation L ''p1'' ''main'' ''u1'' (quiet_env ''s1'' 1)
                   (CreateFile ''a.txt'' ''YQ=='') fresh_world)"
  define r where "r = fst (apply_mutation L ''p1'' ''main'' ''u1'' (quiet_env ''s2'' 2)
                   (CreateFile ''a.txt'' ''Yg=='') w)"
  define w' where "w' = snd (apply_mutation L ''p1'' ''main'' ''u1'' (quiet_env ''s2'' 2)
                   (CreateFile ''a.txt'' ''Yg=='') w)"
  have dbw: "db w = \<lparr>snapshots =
        [\<lparr>s_id = ''s1'', s_project_id = ''p1'', s_user_id = ''u1'',
          s_title = ''Create file: '' @ ''a.txt'', s_description = None, s_timestamp = 1,
          s_file_count = 1, s_external_id = None\<rparr>],
      snapshot_files =
        [\<lparr>sf_snapshot_id = ''s1'',
          sf_file = \<lparr>path = ''a.txt'', hash = sha256_hex L (base64_decode L ''YQ==''),
                     fsize = length (base64_decode L ''YQ==''), mode = 644\<rparr>\<rparr>],
      branches =
        [\<lparr>b_project_id = ''p1'', b_name = ''main'', b_head_snapshot_id = Some ''s1'',
          b_updated_at = 1\<rparr>]\<rparr>"
    unfolding w_def by (rule first_create_on_fresh_world) simp
  have mem: "(w, CreateFile ''a.txt'' ''Yg=='', r, w') \<in>
               set (run L ''p1'' ''main'' ''u1'' update_steps fresh_world)"
    by (simp add: update_steps_def w_def r_def w'_def)
  have res: "resolveSnapshotId (db w) ''p1'' (Some ''main'') = Some ''s1''"
    by (simp add: dbw resolveSnapshotId_def)
  have cur: "current_files (db w) ''p1'' (Some ''main'') =
               [\<lparr>path = ''a.txt'', hash = sha256_hex L (base64_decode L ''YQ==''),
                 fsize = length (base64_decode L ''YQ==''), mode = 644\<rparr>]"
    by (simp add: current_files_Some [OF res]) (simp add: dbw getFilesInSnapshot_def)
  have ids: "s_id ` set (snapshots (db w)) = {''s1''}"
    by (simp add: dbw)
  have fk: "fk_snapshot_files (db w)"
    by (simp add: dbw fk_snapshot_files_def)
  obtain d1 where c: "createNewSnapshot (quiet_env ''s2'' 2) (db w) ''p1'' ''u1''
                 (filter (\<lambda>f. path f \<noteq> ''a.txt'') (current_files (db w) ''p1'' (Some ''main'')) @
                  [\<lparr>path = ''a.txt'', hash = sha256_hex L (base64_decode L ''Yg==''),
                    fsize = length (base64_decode L ''Yg==''), mode = 644\<rparr>])
                 (''Create file: '' @ ''a.txt'') = Inr (''s2'', d1)"
    and rw: "createFile L (quiet_env ''s2'' 2) w ''p1'' (Some ''main'') (Some ''a.txt'')
               (Some ''Yg=='') (Some ''u1'') =
                (Response 201 (FileCreated ''s2''
                     \<lparr>path = ''a.txt'', hash = sha256_hex L (base64_decode L ''Yg==''),
                      fsize = length (base64_decode L ''Yg==''), mode = 644\<rparr>),
                 \<lparr>db = updateBranchHead (quiet_env ''s2'' 2) d1 ''p1'' ''main'' ''s2'',
                  storage = (storage w)(''p1'' @ ''/'' @ sha256_hex L (base64_decode L ''Yg=='')
                                          \<mapsto> base64_decode L ''Yg=='')\<rparr>)"
    using createFile_commits [of "Some ''main''" "Some ''a.txt''" "Some ''Yg==''" "''Yg==''"
        "Some ''u1''" "quiet_env ''s2'' 2" w "''p1''" L]
    by (auto simp: truthy_def ids)
  have r: "created_id r = Some ''s2''"
    by (simp add: r_def apply_mutation_def rw created_id_def)
  have files: "map path (getFilesInSnapshot (db w') ''s2'') = [''a.txt'']"
    by (simp add: w'_def apply_mutation_def rw getFiles_after_commit [OF fk c] cur)
  have "distinct (map path (getFilesInSnapshot (db w') ''s2''))"
    by (rule path_uniqueness [OF fresh_world_facts(1) _ _ mem r])
       (simp_all add: current_files_def resolveSnapshotId_def latest_project_snapshot_def
          fresh_world_def update_steps_def)
  with mem r files cur show "\<exists>w r w'.
      (w, CreateFile ''a.txt'' ''Yg=='', r, w') \<in>
        set (run L ''p1'' ''main'' ''u1'' update_steps fresh_world) \<and>
      map path (current_files (db w) ''p1'' (Some ''main'')) = [''a.txt''] \<and>
      created_id r = Some ''s2'' \<and>
      map path (getFilesInSnapshot (db w') ''s2'') = [''a.txt''] \<and>
      distinct (map path (getFilesInSnapshot (db w') ''s2''))"
    by (intro exI [of _ w] exI [of _ r] exI [of _ w']) simp
qed

subsection \<open>The deletions leave the blob store alone\<close>

lemma deleteFile_storage:
  "storage (snd (deleteFile e w projectId branch filePath userId)) = storage w"
  by (simp add: deleteFile_def Let_def split: option.splits sum.splits prod.splits)

lemma deleteFolder_storage:
  "storage (snd (deleteFolder e w projectId branch folderPath userId)) = storage w"
  by (simp add: deleteFolder_def Let_def split: option.splits sum.splits prod.splits)

lemma writes_one_snapshotI:
  assumes "createNewSnapshot e d projectId userId files title = Inr (i, d1)"
  shows "writes_one_snapshot p b d (updateBranchHead e' d1 p b i)"
proof -
  let ?d2 = "updateBranchHead e' d1 p b i"
  have sn: "snapshots ?d2 = snapshots d @
        [\<lparr>s_id = i, s_project_id = projectId, s_user_id = userId, s_title = title,
          s_description = None, s_timestamp = now_snapshot e, s_file_count = length files,
          s_external_id = None\<rparr>]"
    by (simp add: updateBranchHead_tables createNewSnapshot_Inr(4) [OF assms])
  have sf: "snapshot_files ?d2 =
              snapshot_files d @ map (\<lambda>f. \<lparr>sf_snapshot_id = i, sf_file = f\<rparr>) files"
    by (simp add: updateBranchHead_tables createNewSnapshot_Inr(5) [OF assms])
  have br: "branches ?d2 =
              map (\<lambda>r. if b_project_id r = p \<and> b_name r = b
                        then r\<lparr>b_head_snapshot_id := Some i, b_updated_at := now_branch e'\<rparr>
                        else r) (branches d)"
    by (simp add: updateBranchHead_def createNewSnapshot_Inr(6) [OF assms])
  have new: "s_id (last (snapshots ?d2)) = i"
    by (simp add: sn)
  have 1: "prefix (snapshots d) (snapshots ?d2)" by (simp add: sn)
  have 2: "length (snapshots ?d2) = Suc (length (snapshots d))" by (simp add: sn)
  have 3: "prefix (snapshot_files d) (snapshot_files ?d2)" by (simp add: sf)
  have 4: "list_all (\<lambda>r. sf_snapshot_id r = s_id (last (snapshots ?d2)))
             (drop (length (snapshot_files d)) (snapshot_files ?d2))"
    unfolding new by (simp add: sf list_all_iff)
  have 5: "list_all2
        (\<lambda>r r'. if b_project_id r = p \<and> b_name r = b
                 then r' = r\<lparr>b_head_snapshot_id := Some (s_id (last (snapshots ?d2))),
                            b_updated_at := b_updated_at r'\<rparr>
                 else r' = r)
        (branches d) (branches ?d2)"
    unfolding new br by (simp add: list_all2_map2 list_all2_same)
  from 1 2 3 4 5 show ?thesis
    unfolding writes_one_snapshot_def by (intro conjI)
qed

lemma deleteFile_db:
  "db (snd (deleteFile e w projectId branch filePath userId)) = db w \<or>
   writes_one_snapshot projectId (the branch) (db w)
     (db (snd (deleteFile e w projectId branch filePath userId)))"
  by (auto simp: deleteFile_def Let_def split: option.splits sum.splits prod.splits
           dest: writes_one_snapshotI)

lemma deleteFolder_db:
  "db (snd (deleteFolder e w projectId branch folderPath userId)) = db w \<or>
   writes_one_snapshot projectId (the branch) (db w)
     (db (snd (deleteFolder e w projectId branch folderPath userId)))"
  by (auto simp: deleteFolder_def Let_def split: option.splits sum.splits prod.splits
           dest: writes_one_snapshotI)

text \<open>
  C10.  For every invocation of \<^verbatim>\<open>deleteFile\<close> and of \<^verbatim>\<open>deleteFolder\<close>, whatever the request,
  the state and the surroundings, the blob store after it is the blob store before it.  The
  database after it is either the database before it, or that database with exactly this
  written: one new row of \<^verbatim>\<open>snapshots\<close>, file rows of that snapshot, and the head pointer
  (with the update time) of the rows of \<^verbatim>\<open>branches\<close> for the project and the branch of the
  request, which now point at the new snapshot.  Every other row of every table, the rows
  of other branches and of other projects among them, is as it was.
\<close>

theorem delete_frame:
  "storage (snd (deleteFile e w projectId branch filePath userId)) = storage w \<and>
   storage (snd (deleteFolder e w projectId branch folderPath userId)) = storage w \<and>
   (db (snd (deleteFile e w projectId branch filePath userId)) = db w \<or>
    writes_one_snapshot projectId (the branch) (db w)
      (db (snd (deleteFile e w projectId branch filePath userId)))) \<and>
   (db (snd (deleteFolder e w projectId branch folderPath userId)) = db w \<or>
    writes_one_snapshot projectId (the branch) (db w)
      (db (snd (deleteFolder e w projectId branch folderPath userId))))"
  by (simp add: deleteFile_storage deleteFolder_storage deleteFile_db deleteFolder_db)

lemma shared_world_facts:
  "resolveSnapshotId (db shared_world) ''p1'' (Some ''main'') = Some ''s1''"
  "getFilesInSnapshot (db shared_world) ''s1'' = sample_files"
  "s_id ` set (snapshots (db shared_world)) = {''s1''}"
  "length (snapshots (db shared_world)) = 1"
  by (simp_all add: resolveSnapshotId_def getFilesInSnapshot_def shared_world_def sample_files_def)

theorem delete_frame_witness:
  "storage (snd (deleteFile (quiet_env ''s2'' 2) shared_world ''p1'' (Some ''main'')
                   (Some ''README.md'') (Some ''u1''))) = storage shared_world \<and>
   storage (snd (deleteFolder (quiet_env ''s2'' 2) shared_world ''p1'' (Some ''main'')
                   (Some ''a/b'') (Some ''u1''))) = storage shared_world \<and>
   writes_one_snapshot ''p1'' ''main'' (db shared_world)
     (db (snd (deleteFile (quiet_env ''s2'' 2) shared_world ''p1'' (Some ''main'')
                 (Some ''README.md'') (Some ''u1'')))) \<and>
   writes_one_snapshot ''p1'' ''main'' (db shared_world)
     (db (snd (deleteFolder (quiet_env ''s2'' 2) shared_world ''p1'' (Some ''main'')
                 (Some ''a/b'') (Some ''u1'')))) \<and>
   branches (db (snd (deleteFile (quiet_env ''s2'' 2) shared_world ''p1'' (Some ''main'')
                       (Some ''README.md'') (Some ''u1'')))) =
     [\<lparr>b_project_id = ''p1'', b_name = ''main'', b_head_snapshot_id = Some ''s2'',
       b_updated_at = 2\<rparr>,
      \<lparr>b_project_id = ''p1'', b_name = ''dev'', b_head_snapshot_id = Some ''s1'',
       b_updated_at = 1\<rparr>,
      \<lparr>b_project_id = ''p2'', b_name = ''main'', b_head_snapshot_id = None,
       b_updated_at = 0\<rparr>]"
proof -
  obtain d1 where c1: "createNewSnapshot (quiet_env ''s2'' 2) (db shared_world) ''p1''
        (the (Some ''u1''))
        (filter (\<lambda>f. path f \<noteq> the (Some ''README.md'')) (getFilesInSnapshot (db shared_world) ''s1''))
        (''Delete file: '' @ the (Some ''README.md'')) = Inr (gen_random_uuid (quiet_env ''s2'' 2), d1)"
    and r1: "deleteFile (quiet_env ''s2'' 2) shared_world ''p1'' (Some ''main'') (Some ''README.md'')
               (Some ''u1'') =
             (Response 200 (Deleted (gen_random_uuid (quiet_env ''s2'' 2)) (the (Some ''README.md''))),
              shared_world\<lparr>db := updateBranchHead (quiet_env ''s2'' 2) d1 ''p1'' (the (Some ''main''))
                                     (gen_random_uuid (quiet_env ''s2'' 2))\<rparr>)"
    using deleteFile_commits [of "Some ''main''" "Some ''README.md''" "Some ''u1''"
        "quiet_env ''s2'' 2" shared_world "''p1''" "''s1''"]
    by (auto simp: truthy_def shared_world_facts sample_files_def)
  have under: "rows_under (folder_prefix (the (Some ''a/b''))) (getFilesInSnapshot (db shared_world) ''s1'') \<noteq> []"
    by (simp add: shared_world_facts rows_under_def folder_prefix_def endsWith_slash_def sample_files_def)
  obtain d2 where c2: "createNewSnapshot (quiet_env ''s2'' 2) (db shared_world) ''p1''
        (the (Some ''u1''))
        (rows_outside (folder_prefix (the (Some ''a/b''))) (getFilesInSnapshot (db shared_world) ''s1''))
        (''Delete folder: '' @ the (Some ''a/b'')) = Inr (gen_random_uuid (quiet_env ''s2'' 2), d2)"
    and r2: "deleteFolder (quiet_env ''s2'' 2) shared_world ''p1'' (Some ''main'') (Some ''a/b'')
               (Some ''u1'') =
             (Response 200 (Deleted (gen_random_uuid (quiet_env ''s2'' 2)) (the (Some ''a/b''))),
              shared_world\<lparr>db := updateBranchHead (quiet_env ''s2'' 2) d2 ''p1'' (the (Some ''main''))
                                     (gen_random_uuid (quiet_env ''s2'' 2))\<rparr>)"
    using deleteFolder_something_under [of "Some ''main''" "Some ''a/b''" "Some ''u1''"
        "quiet_env ''s2'' 2" shared_world "''p1''" "''s1''", OF _ _ _ _ _ under]
    by (auto simp: truthy_def shared_world_facts)
  have n1: "length (snapshots (db (snd (deleteFile (quiet_env ''s2'' 2) shared_world ''p1''
              (Some ''main'') (Some ''README.md'') (Some ''u1''))))) = 2"
    by (simp add: r1 updateBranchHead_tables createNewSnapshot_Inr(4) [OF c1] shared_world_facts)
  have b1: "branches (db (snd (deleteFile (quiet_env ''s2'' 2) shared_world ''p1'' (Some ''main'')
                       (Some ''README.md'') (Some ''u1'')))) =
     [\<lparr>b_project_id = ''p1'', b_name = ''main'', b_head_snapshot_id = Some ''s2'',
       b_updated_at = 2\<rparr>,
      \<lparr>b_project_id = ''p1'', b_name = ''dev'', b_head_snapshot_id = Some ''s1'',
       b_updated_at = 1\<rparr>,
      \<lparr>b_project_id = ''p2'', b_name = ''main'', b_head_snapshot_id = None,
       b_updated_at = 0\<rparr>]"
    by (simp add: r1 updateBranchHead_def createNewSnapshot_Inr(6) [OF c1]) (simp add: shared_world_def)
  have n2: "length (snapshots (db (snd (deleteFolder (quiet_env ''s2'' 2) shared_world ''p1''
              (Some ''main'') (Some ''a/b'') (Some ''u1''))))) = 2"
    by (simp add: r2 updateBranchHead_tables createNewSnapshot_Inr(4) [OF c2] shared_world_facts)
  have n2': "db (snd (deleteFolder (quiet_env ''s2'' 2) shared_world ''p1''
              (Some ''main'') (Some ''a/b'') (Some ''u1''))) \<noteq> db shared_world"
    using n2 shared_world_facts(4) by auto
  have n1': "db (snd (deleteFile (quiet_env ''s2'' 2) shared_world ''p1''
              (Some ''main'') (Some ''README.md'') (Some ''u1''))) \<noteq> db shared_world"
    using n1 shared_world_facts(4) by auto
  show ?thesis
    using n1' n2' b1 delete_frame [of "quiet_env ''s2'' 2" shared_world "''p1''" "Some ''main''"
        "Some ''README.md''" "Some ''u1''" "Some ''a/b''"]
    by simp
qed

end
